theory Spec2Isabelle
  imports Main
begin

section \<open>Protocol data\<close>

text \<open>
  The client-side delta synchronisation core (class \<open>DeltaManager\<close>) and the epoch
  tracker (classes \<open>EpochTracker\<close>, \<open>EpochTrackerWithRedemption\<close>) are embedded as
  functions on explicit state records. Sequence numbers are JavaScript numbers holding
  integers; they are modelled as \<open>int\<close>.
\<close>

datatype ConnectionMode = Read | Write

text \<open>
  Modelled from the spec: the enumeration \<open>MessageType\<close> and the predicate
  \<open>isSystemType\<close> are imported by the source and are not part of it. The spec lists
  the system types as join, leave, propose, reject and noop.
\<close>

datatype MessageType = NoOp | ClientJoin | ClientLeave | Propose | Reject | Operation

fun isSystemType :: "MessageType \<Rightarrow> bool" where
  "isSystemType Operation = False"
| "isSystemType _ = True"

text \<open>
  An error is an arbitrary JavaScript value (\<open>error: any\<close>). The fields the source
  reads from an error object are optional.
\<close>

record error_object =
  canRetry :: "bool option"
  retryAfterSeconds :: "int option"
  e_message :: string

datatype error_value =
    ErrUndefined
  | ErrNull
  | ErrPrimitive string
  | ErrObject error_object

text \<open>JavaScript truthiness of an error value, as tested by \<open>if (error)\<close>.\<close>

fun truthy_error :: "error_value \<Rightarrow> bool" where
  "truthy_error ErrUndefined = False"
| "truthy_error ErrNull = False"
| "truthy_error (ErrPrimitive p) = (p \<noteq> [])"
| "truthy_error (ErrObject _) = True"

text \<open>
  \<open>canRetryOnError\<close>: retry unless the error is an object whose \<open>canRetry\<close> is
  defined and false.
\<close>

fun canRetryOnError :: "error_value \<Rightarrow> bool" where
  "canRetryOnError ErrNull = True"
| "canRetryOnError ErrUndefined = True"
| "canRetryOnError (ErrPrimitive _) = True"
| "canRetryOnError (ErrObject e) = (case canRetry e of None \<Rightarrow> True | Some b \<Rightarrow> b)"

text \<open>The payload handed to \<open>submit\<close>, and its serialisation by \<open>JSON.stringify\<close>,
  which is kept symbolic.\<close>

datatype payload = PNull | PText string

datatype serialized = JSON_stringify payload

record sequenced_message =
  clientId :: string
  sequenceNumber :: int
  minimumSequenceNumber :: int
  m_clientSequenceNumber :: int
  m_type :: MessageType

record document_message =
  d_clientSequenceNumber :: int
  d_contents :: "serialized option"
  d_data :: "serialized option"
  d_metadata :: "string option"
  referenceSequenceNumber :: int
  d_type :: MessageType

record connection_details =
  cd_clientId :: string
  cd_mode :: "ConnectionMode option"
  initialMessages :: "sequenced_message list"
  initialSignals :: "string list"

record delta_connection =
  connId :: nat
  details :: connection_details

text \<open>
  Modelled from the spec: the class \<open>DeltaQueue\<close> is imported by the source and is not
  part of it. A queue is a FIFO list with a pause flag; \<open>push\<close> appends, \<open>clear\<close>
  empties, \<open>systemPause\<close> and \<open>systemResume\<close> set and reset the flag.
\<close>

record 'a delta_queue =
  q_items :: "'a list"
  q_paused :: bool

definition q_push :: "'a \<Rightarrow> 'a delta_queue \<Rightarrow> 'a delta_queue" where
  "q_push x q = q\<lparr>q_items := q_items q @ [x]\<rparr>"

definition q_clear :: "'a delta_queue \<Rightarrow> 'a delta_queue" where
  "q_clear q = q\<lparr>q_items := []\<rparr>"

definition q_systemPause :: "'a delta_queue \<Rightarrow> 'a delta_queue" where
  "q_systemPause q = q\<lparr>q_paused := True\<rparr>"

definition q_systemResume :: "'a delta_queue \<Rightarrow> 'a delta_queue" where
  "q_systemResume q = q\<lparr>q_paused := False\<rparr>"

text \<open>Events the manager emits to its listeners, in the order of emission.\<close>

datatype event =
    EvPrepareSend "document_message list"
  | EvSubmitOp document_message
  | EvDisconnect string
  | EvError error_value
  | EvConnectionDelay int
  | EvConnect connection_details
  | EvCaughtUp

text \<open>The handle returned by \<open>setTimeout\<close>, with the delay in milliseconds the timer was
  armed with; a handle is an object and always truthy.\<close>

datatype timeout = Timeout nat int

text \<open>
  Modelled from the spec: the constant \<open>Browser\<close> is imported by the source and is not
  part of it; it is the client type of browser clients.
\<close>

definition Browser :: string where
  "Browser = ''browser''"

section \<open>The state of a DeltaManager\<close>

text \<open>
  The fields of the class that the embedded methods read or write, followed by the
  effects on the outside: emitted events, telemetry event names, the timers armed and
  not yet fired or cleared, the calls of \<open>DeltaConnection.connect\<close> issued (reason,
  delay and mode) and how many of them have settled (a call settles asynchronously, so
  calls issued in one synchronous run are in flight together), the runs of
  \<open>getDeltas\<close> started, the connections closed, and the promises of \<open>connect\<close> that
  were rejected or resolved. The listeners of the manager are outside; of them the
  state holds the number of listeners registered for the \<open>error\<close> event, on which it
  depends whether emitting that event raises. The content cache, the clock and the
  ping statistics are left out.
\<close>

record dm_state =
  clientType :: string
  reconnect :: bool
  systemConnectionMode :: ConnectionMode
  connectionMode :: ConnectionMode
  pending :: "sequenced_message list"
  fetching :: bool
  inQuorum :: bool
  updateSequenceNumberTimer :: "timeout option"
  minSequenceNumber :: int
  lastQueuedSequenceNumber :: int
  baseSequenceNumber :: int
  initSequenceNumber :: int
  inbound :: "sequenced_message delta_queue"
  inboundSignal :: "string delta_queue"
  outbound :: "document_message list delta_queue"
  connecting :: "nat option"
  connection :: "delta_connection option"
  clientSequenceNumber :: int
  closed :: bool
  handler :: bool
  deltaStorageP :: bool
  messageBuffer :: "document_message list"
  duplicateMsgCount :: int
  connectRepeatCount :: int
  deltaStorageDelay :: "int option"
  deltaStreamDelay :: "int option"
  emitted :: "event list"
  errorListeners :: nat
  telemetry :: "string list"
  timers :: "timeout list"
  nextTimer :: nat
  nextDeferred :: nat
  connectCalls :: "(string \<times> int \<times> ConnectionMode) list"
  connectsSettled :: nat
  getDeltasCalls :: "(string \<times> int \<times> int option) list"
  closedConnections :: "nat list"
  rejectedDeferreds :: "(nat \<times> error_value) list"
  resolvedDeferreds :: "(nat \<times> connection_details) list"

definition MaxReconnectDelay :: int where "MaxReconnectDelay = 8000"
definition InitialReconnectDelay :: int where "InitialReconnectDelay = 1000"
definition MissingFetchDelay :: int where "MissingFetchDelay = 100"
definition MaxFetchDelay :: int where "MaxFetchDelay = 10000"
definition MaxBatchDeltas :: int where "MaxBatchDeltas = 2000"

text \<open>The constructor: \<open>client_mode\<close> is \<open>client.mode\<close>, \<open>ctype\<close> is \<open>client.type\<close>.\<close>

definition new_DeltaManager :: "string \<Rightarrow> ConnectionMode option \<Rightarrow> bool \<Rightarrow> dm_state" where
  "new_DeltaManager ctype client_mode reconn =
     \<lparr> clientType = ctype,
       reconnect = reconn,
       systemConnectionMode = (if client_mode = Some Write then Write else Read),
       connectionMode = Write,
       pending = [],
       fetching = False,
       inQuorum = False,
       updateSequenceNumberTimer = None,
       minSequenceNumber = 0,
       lastQueuedSequenceNumber = 0,
       baseSequenceNumber = 0,
       initSequenceNumber = 0,
       inbound = \<lparr>q_items = [], q_paused = True\<rparr>,
       inboundSignal = \<lparr>q_items = [], q_paused = True\<rparr>,
       outbound = \<lparr>q_items = [], q_paused = True\<rparr>,
       connecting = None,
       connection = None,
       clientSequenceNumber = 0,
       closed = False,
       handler = False,
       deltaStorageP = False,
       messageBuffer = [],
       duplicateMsgCount = 0,
       connectRepeatCount = 0,
       deltaStorageDelay = None,
       deltaStreamDelay = None,
       emitted = [],
       errorListeners = 0,
       telemetry = [],
       timers = [],
       nextTimer = 0,
       nextDeferred = 0,
       connectCalls = [],
       connectsSettled = 0,
       getDeltasCalls = [],
       closedConnections = [],
       rejectedDeferreds = [],
       resolvedDeferreds = [] \<rparr>"

definition active :: "dm_state \<Rightarrow> bool" where
  "active s = (inQuorum s \<and> connectionMode s = Write)"

text \<open>
  The class extends the \<open>EventEmitter\<close> of the module \<open>events\<close>, a library. Emitting
  an event other than \<open>error\<close> (\<open>emit\<close>) hands it to the listeners, if any, and
  returns. Emitting \<open>error\<close> (\<open>emit_error\<close>) while no listener is registered for it
  raises the error instead, and nothing is delivered; a listener that is called is
  taken to return. The constructor registers listeners for \<open>error\<close> on the queues only,
  none on the manager; users of the manager register theirs with the inherited
  \<open>on("error", ...)\<close> (\<open>addErrorListener\<close>), and \<open>close\<close> ends with
  \<open>removeAllListeners\<close>.
\<close>

datatype failure = AssertionError | UnhandledError error_value

definition emit :: "event \<Rightarrow> dm_state \<Rightarrow> dm_state" where
  "emit ev s = s\<lparr>emitted := emitted s @ [ev]\<rparr>"

definition emit_error :: "error_value \<Rightarrow> dm_state \<Rightarrow> failure option \<times> dm_state" where
  "emit_error error s =
     (if errorListeners s = 0 then (Some (UnhandledError error), s)
      else (None, emit (EvError error) s))"

definition addErrorListener :: "dm_state \<Rightarrow> dm_state" where
  "addErrorListener s = s\<lparr>errorListeners := errorListeners s + 1\<rparr>"

definition sendTelemetryEvent :: "string \<Rightarrow> dm_state \<Rightarrow> dm_state" where
  "sendTelemetryEvent name s = s\<lparr>telemetry := telemetry s @ [name]\<rparr>"

section \<open>Ordering of inbound messages\<close>

text \<open>
  \<open>fetchMissingDeltas\<close>: nothing happens while a fetch is in flight; a closed manager
  only logs; otherwise the flag is set and a run of \<open>getDeltas\<close> is started (its
  completion, which resets the flag and calls \<open>catchUp\<close>, is a later event).
\<close>

definition fetchMissingDeltas :: "string \<Rightarrow> int \<Rightarrow> int option \<Rightarrow> dm_state \<Rightarrow> dm_state" where
  "fetchMissingDeltas telemetryEventSuffix from to s =
     (if fetching s then s
      else if closed s then sendTelemetryEvent ''fetchMissingDeltasClosedConnection'' s
      else s\<lparr>fetching := True,
             getDeltasCalls := getDeltasCalls s @ [(telemetryEventSuffix, from, to)]\<rparr>)"

definition handleOutOfOrderMessage :: "sequenced_message \<Rightarrow> dm_state \<Rightarrow> dm_state" where
  "handleOutOfOrderMessage message s =
     (if sequenceNumber message \<le> lastQueuedSequenceNumber s
      then sendTelemetryEvent ''DuplicateMessage''
             (s\<lparr>duplicateMsgCount := duplicateMsgCount s + 1\<rparr>)
      else fetchMissingDeltas ''OutOfOrderMessage'' (lastQueuedSequenceNumber s)
             (Some (sequenceNumber message)) (s\<lparr>pending := pending s @ [message]\<rparr>))"

text \<open>The body of the loop of \<open>enqueueMessages\<close>, for one message.\<close>

definition enqueueMessage :: "sequenced_message \<Rightarrow> dm_state \<Rightarrow> dm_state" where
  "enqueueMessage message s =
     (if sequenceNumber message \<noteq> lastQueuedSequenceNumber s + 1
      then handleOutOfOrderMessage message s
      else s\<lparr>lastQueuedSequenceNumber := sequenceNumber message,
             inbound := q_push message (inbound s)\<rparr>)"

fun enqueueLoop :: "sequenced_message list \<Rightarrow> dm_state \<Rightarrow> dm_state" where
  "enqueueLoop [] s = s"
| "enqueueLoop (message # messages) s = enqueueLoop messages (enqueueMessage message s)"

definition enqueueMessages :: "sequenced_message list \<Rightarrow> dm_state \<Rightarrow> dm_state" where
  "enqueueMessages messages s =
     (if \<not> handler s then s\<lparr>pending := pending s @ messages\<rparr>
      else enqueueLoop messages s)"

text \<open>
  \<open>catchUp\<close>: enqueue the messages, then, with a handler attached, sort the pending
  list by sequence number (stably), empty it and enqueue the sorted list.
\<close>

definition catchUp :: "string \<Rightarrow> sequenced_message list \<Rightarrow> dm_state \<Rightarrow> dm_state" where
  "catchUp telemetryEventSuffix messages s =
     (let s1 = enqueueMessages messages (sendTelemetryEvent (''CatchUp_'' @ telemetryEventSuffix) s)
      in if handler s1
         then enqueueMessages (sort_key sequenceNumber (pending s1)) (s1\<lparr>pending := []\<rparr>)
         else s1)"

text \<open>\<open>attachOpHandler\<close>; the second assertion of the source cannot fail.\<close>

definition attachOpHandler :: "int \<Rightarrow> int \<Rightarrow> bool \<Rightarrow> dm_state \<Rightarrow> failure + dm_state" where
  "attachOpHandler minSeq seq resume s =
     (let s1 = s\<lparr>initSequenceNumber := seq, baseSequenceNumber := seq,
                 minSequenceNumber := minSeq, lastQueuedSequenceNumber := seq\<rparr>
      in if handler s1 then Inl AssertionError
         else let s2 = s1\<lparr>handler := True\<rparr>
              in if resume
                 then let s3 = s2\<lparr>inbound := q_systemResume (inbound s2),
                                   inboundSignal := q_systemResume (inboundSignal s2)\<rparr>
                      in if pending s3 \<noteq> [] then Inr (catchUp ''DocumentOpen'' [] s3)
                         else Inr (fetchMissingDeltas ''DocumentOpen'' seq None s3)
                 else Inr s2)"

section \<open>Outbound messages and the acknowledgement scheduler\<close>

definition clearTimeout :: "timeout \<Rightarrow> dm_state \<Rightarrow> dm_state" where
  "clearTimeout t s = s\<lparr>timers := removeAll t (timers s)\<rparr>"

definition stopSequenceNumberUpdate :: "dm_state \<Rightarrow> dm_state" where
  "stopSequenceNumberUpdate s =
     (let s1 = (case updateSequenceNumberTimer s of
                  Some t \<Rightarrow> clearTimeout t s
                | None \<Rightarrow> s)
      in s1\<lparr>updateSequenceNumberTimer := None\<rparr>)"

definition flush :: "dm_state \<Rightarrow> dm_state" where
  "flush s =
     (if messageBuffer s = [] then s
      else let s1 = emit (EvPrepareSend (messageBuffer s)) s
           in s1\<lparr>outbound := q_push (messageBuffer s1) (outbound s1), messageBuffer := []\<rparr>)"

text \<open>
  \<open>createOutboundMessage\<close> returns the outbound message together with the core
  message, whose contents it sets to null for a system type.
\<close>

definition createOutboundMessage ::
  "MessageType \<Rightarrow> document_message \<Rightarrow> document_message \<times> document_message" where
  "createOutboundMessage type coreMessage =
     (if isSystemType type
      then let data = d_contents coreMessage;
               core = coreMessage\<lparr>d_contents := None\<rparr>
           in (core\<lparr>d_data := data\<rparr>, core)
      else (coreMessage, coreMessage))"

definition submit ::
  "MessageType \<Rightarrow> payload \<Rightarrow> bool \<Rightarrow> string option \<Rightarrow> dm_state \<Rightarrow> int \<times> dm_state" where
  "submit type contents batch metadata s =
     (let s1 = s\<lparr>clientSequenceNumber := clientSequenceNumber s + 1\<rparr>;
          msg = \<lparr> d_clientSequenceNumber = clientSequenceNumber s1,
                  d_contents = Some (JSON_stringify contents),
                  d_data = None,
                  d_metadata = metadata,
                  referenceSequenceNumber = baseSequenceNumber s1,
                  d_type = type \<rparr>;
          (outboundMessage, core) = createOutboundMessage type msg;
          s2 = stopSequenceNumberUpdate s1;
          s3 = emit (EvSubmitOp core) s2;
          s4 = (if \<not> batch
                then let f = flush s3
                     in flush (f\<lparr>messageBuffer := messageBuffer f @ [outboundMessage]\<rparr>)
                else s3\<lparr>messageBuffer := messageBuffer s3 @ [outboundMessage]\<rparr>)
      in (d_clientSequenceNumber outboundMessage, s4))"

definition ImmediateNoOpResponse :: payload where
  "ImmediateNoOpResponse = PText []"

text \<open>The body of the 100 ms timer armed by \<open>scheduleSequenceNumberUpdate\<close>.\<close>

definition ackTimerCallback :: "dm_state \<Rightarrow> dm_state" where
  "ackTimerCallback s =
     (let s1 = s\<lparr>updateSequenceNumberTimer := None\<rparr>
      in if active s1 then snd (submit NoOp PNull False None s1) else s1)"

text \<open>\<open>setTimeout\<close> with the callback above and the given delay: a fresh handle joins
  the armed timers.\<close>

definition setTimeout :: "int \<Rightarrow> dm_state \<Rightarrow> timeout \<times> dm_state" where
  "setTimeout delay s =
     (Timeout (nextTimer s) delay,
      s\<lparr>timers := timers s @ [Timeout (nextTimer s) delay], nextTimer := nextTimer s + 1\<rparr>)"

text \<open>An armed timer fires: it leaves the armed timers and its callback runs. A timer
  that was cleared, or never armed, cannot fire.\<close>

definition fireTimer :: "timeout \<Rightarrow> dm_state \<Rightarrow> dm_state option" where
  "fireTimer t s =
     (if t \<in> set (timers s)
      then Some (ackTimerCallback (s\<lparr>timers := removeAll t (timers s)\<rparr>))
      else None)"

definition scheduleSequenceNumberUpdate :: "sequenced_message \<Rightarrow> bool \<Rightarrow> dm_state \<Rightarrow> dm_state" where
  "scheduleSequenceNumberUpdate message immediateNoOp s =
     (if \<not> active s then stopSequenceNumberUpdate s
      else if immediateNoOp
        then snd (submit NoOp ImmediateNoOpResponse False None (stopSequenceNumberUpdate s))
      else if m_type message = NoOp then s
      else if updateSequenceNumberTimer s = None
        then (case setTimeout 100 s of (t, s1) \<Rightarrow> s1\<lparr>updateSequenceNumberTimer := Some t\<rparr>)
      else s)"

definition updateQuorumJoin :: "dm_state \<Rightarrow> dm_state" where
  "updateQuorumJoin s = s\<lparr>inQuorum := True\<rparr>"

definition updateQuorumLeave :: "dm_state \<Rightarrow> dm_state" where
  "updateQuorumLeave s = s\<lparr>inQuorum := False\<rparr>"

section \<open>Closing, connecting and reconnecting\<close>

definition containerClosedError :: error_value where
  "containerClosedError =
     ErrObject \<lparr>canRetry = None, retryAfterSeconds = None, e_message = ''Container closed''\<rparr>"

definition close :: "dm_state \<Rightarrow> dm_state" where
  "close s =
     (let s1 = stopSequenceNumberUpdate (s\<lparr>closed := True\<rparr>);
          s2 = (case connection s1 of
                  Some c \<Rightarrow> s1\<lparr>closedConnections := closedConnections s1 @ [connId c],
                                connection := None\<rparr>
                | None \<Rightarrow> s1);
          s3 = (case connecting s2 of
                  Some d \<Rightarrow> s2\<lparr>rejectedDeferreds := rejectedDeferreds s2 @ [(d, containerClosedError)],
                                connecting := None\<rparr>
                | None \<Rightarrow> s2)
      in s3\<lparr>inbound := q_systemPause (q_clear (inbound s3)),
            outbound := q_clear (outbound s3),
            inboundSignal := q_systemPause (q_clear (inboundSignal s3)),
            pending := [],
            errorListeners := 0\<rparr>)"

text \<open>
  The methods that reach \<open>closeOnConnectionError\<close> return what they raise, if anything,
  and the state they leave. \<open>closeOnConnectionError\<close> emits the error before it calls
  \<open>close\<close>: when that raises, the manager is not closed.
\<close>

definition closeOnConnectionError :: "error_value \<Rightarrow> dm_state \<Rightarrow> failure option \<times> dm_state" where
  "closeOnConnectionError error s =
     (let s1 = (case connecting s of
                  Some d \<Rightarrow> s\<lparr>rejectedDeferreds := rejectedDeferreds s @ [(d, error)],
                               connecting := None\<rparr>
                | None \<Rightarrow> s)
      in if truthy_error error
         then (case emit_error error s1 of
                 (Some f, s2) \<Rightarrow> (Some f, s2)
               | (None, s2) \<Rightarrow> (None, close s2))
         else (None, close s1))"

datatype retryFor = DELTASTREAM | DELTASTORAGE

text \<open>A number is truthy when it is defined and not zero.\<close>

definition truthy_number :: "int option \<Rightarrow> bool" where
  "truthy_number v = (case v of None \<Rightarrow> False | Some n \<Rightarrow> n \<noteq> 0)"

definition emitDelayInfo :: "retryFor \<Rightarrow> int \<Rightarrow> dm_state \<Rightarrow> dm_state" where
  "emitDelayInfo retryEndpoint delay s =
     (let s1 = (case retryEndpoint of
                  DELTASTORAGE \<Rightarrow> s\<lparr>deltaStorageDelay := Some delay\<rparr>
                | DELTASTREAM \<Rightarrow> s\<lparr>deltaStreamDelay := Some delay\<rparr>)
      in if truthy_number (deltaStreamDelay s1) \<and> truthy_number (deltaStorageDelay s1)
         then let delayTime = max (the (deltaStorageDelay s1)) (the (deltaStreamDelay s1))
              in if delayTime \<ge> 0 then emit (EvConnectionDelay delayTime) s1 else s1
         else s1)"

text \<open>
  \<open>connectCore\<close> up to the call of \<open>DeltaConnection.connect\<close>, which is recorded; the
  two continuations of that call follow as \<open>connectCore_connected\<close> and
  \<open>connectCore_failed\<close>.
\<close>

definition attemptsInFlight :: "dm_state \<Rightarrow> nat" where
  "attemptsInFlight s = length (connectCalls s) - connectsSettled s"

definition connectCore :: "string \<Rightarrow> int \<Rightarrow> ConnectionMode \<Rightarrow> dm_state \<Rightarrow> dm_state" where
  "connectCore reason delay mode s =
     (if closed s then s
      else s\<lparr>connectRepeatCount := connectRepeatCount s + 1,
             connectCalls := connectCalls s @ [(reason, delay, mode)]\<rparr>)"

datatype connect_result = PendingPromise nat | ResolvedWith connection_details

definition connect :: "string \<Rightarrow> dm_state \<Rightarrow> (failure + connect_result) \<times> dm_state" where
  "connect reason s =
     (if closed s then (Inl AssertionError, s)
      else case connecting s of
        Some d \<Rightarrow> (if connection s \<noteq> None then (Inl AssertionError, s)
                   else (Inr (PendingPromise d), s))
      | None \<Rightarrow>
         (case connection s of
            Some c \<Rightarrow> (Inr (ResolvedWith (details c)), s)
          | None \<Rightarrow>
             (let d = nextDeferred s;
                  s1 = s\<lparr>connecting := Some d, nextDeferred := nextDeferred s + 1\<rparr>;
                  s2 = connectCore reason InitialReconnectDelay (connectionMode s1) s1
              in (Inr (PendingPromise d), s2))))"

definition reconnectOnError ::
  "string \<Rightarrow> delta_connection \<Rightarrow> ConnectionMode \<Rightarrow> error_value \<Rightarrow> dm_state
     \<Rightarrow> failure option \<times> dm_state" where
  "reconnectOnError reason conn mode error s =
     (if map_option connId (connection s) \<noteq> Some (connId conn) then (None, s)
      else let s1 = s\<lparr>connection := None, connectionMode := Read\<rparr>;
               s2 = s1\<lparr>outbound := q_clear (q_systemPause (outbound s1))\<rparr>;
               s3 = emit (EvDisconnect reason) s2;
               s4 = s3\<lparr>closedConnections := closedConnections s3 @ [connId conn]\<rparr>
           in if clientType s4 \<noteq> Browser \<or> \<not> reconnect s4 \<or> closed s4 \<or> \<not> canRetryOnError error
              then closeOnConnectionError error s4
              else (None, connectCore reason InitialReconnectDelay mode
                            (sendTelemetryEvent ''DeltaConnectionReconnect'' s4)))"

text \<open>The listeners that \<open>connectCore\<close> registers on a connection for \<open>nack\<close>,
  \<open>disconnect\<close> and \<open>error\<close>.\<close>

definition on_nack ::
  "delta_connection \<Rightarrow> int \<Rightarrow> dm_state \<Rightarrow> failure option \<times> dm_state" where
  "on_nack conn target s =
     reconnectOnError
       (if target = - 1 then ''Reconnecting to start writing'' else ''Reconnecting on nack'')
       conn Write ErrUndefined s"

definition on_disconnect ::
  "delta_connection \<Rightarrow> string \<Rightarrow> dm_state \<Rightarrow> failure option \<times> dm_state" where
  "on_disconnect conn disconnectReason s =
     reconnectOnError (''Reconnecting on disconnect: '' @ disconnectReason) conn
       (systemConnectionMode s) ErrUndefined s"

definition on_error ::
  "delta_connection \<Rightarrow> error_value \<Rightarrow> dm_state \<Rightarrow> failure option \<times> dm_state" where
  "on_error conn error s =
     reconnectOnError ''Reconnecting on error'' conn (systemConnectionMode s) error
       (sendTelemetryEvent ''DeltaConnectionError'' s)"

fun pushSignals :: "string list \<Rightarrow> string delta_queue \<Rightarrow> string delta_queue" where
  "pushSignals [] q = q"
| "pushSignals (x # xs) q = pushSignals xs (q_push x q)"

text \<open>The connection attempt succeeded (the content cache is left out).\<close>

definition connectCore_connected :: "delta_connection \<Rightarrow> dm_state \<Rightarrow> dm_state" where
  "connectCore_connected conn s =
     (let s1 = s\<lparr>connectsSettled := connectsSettled s + 1,
                 connection := Some conn,
                 connectionMode := (case cd_mode (details conn) of Some m \<Rightarrow> m | None \<Rightarrow> Write)\<rparr>;
          s2 = s1\<lparr>outbound := q_systemResume (outbound s1)\<rparr>;
          s3 = emitDelayInfo DELTASTREAM (- 1) s2;
          s4 = s3\<lparr>clientSequenceNumber := 0\<rparr>;
          s5 = (if connectRepeatCount s4 > 1
                then sendTelemetryEvent ''MultipleDeltaConnectionFailures'' s4 else s4);
          s6 = s5\<lparr>connectRepeatCount := 0\<rparr>;
          s7 = (case connecting s6 of
                  Some d \<Rightarrow> s6\<lparr>resolvedDeferreds := resolvedDeferreds s6 @ [(d, details conn)],
                                connecting := None\<rparr>
                | None \<Rightarrow> s6);
          s8 = emit (EvConnect (details conn)) s7;
          s9 = (if initialMessages (details conn) \<noteq> []
                then catchUp ''InitalOps'' (initialMessages (details conn)) s8 else s8)
      in s9\<lparr>inboundSignal := pushSignals (initialSignals (details conn)) (inboundSignal s9)\<rparr>)"

text \<open>The connection attempt failed; the wait before the next attempt is not modelled.\<close>

definition connectCore_failed ::
  "string \<Rightarrow> int \<Rightarrow> ConnectionMode \<Rightarrow> error_value \<Rightarrow> dm_state
     \<Rightarrow> failure option \<times> dm_state" where
  "connectCore_failed reason delay mode error s0 =
     (let s = s0\<lparr>connectsSettled := connectsSettled s0 + 1\<rparr>
      in if \<not> canRetryOnError error then closeOnConnectionError error s
      else let s1 = (if connectRepeatCount s = 1
                     then sendTelemetryEvent ''DeltaConnectionFailureToConnect'' s else s);
               delayNext = (case error of
                              ErrObject e \<Rightarrow>
                                (case retryAfterSeconds e of
                                   Some r \<Rightarrow> r
                                 | None \<Rightarrow> min (delay * 2) MaxReconnectDelay)
                            | _ \<Rightarrow> min (delay * 2) MaxReconnectDelay)
           in (None, connectCore reason delayNext mode (emitDelayInfo DELTASTREAM delayNext s1)))"

section \<open>Fetching deltas from storage\<close>

text \<open>
  What the storage does in one iteration of the loop of \<open>getDeltas\<close>: connecting to
  the delta storage fails, the call of \<open>get\<close> fails (or returns something that is not
  a list of messages, which raises inside the \<open>try\<close> as well), or \<open>get\<close> returns a
  batch.
\<close>

datatype fetch_result =
    ConnectToStorageFails error_value
  | GetFails error_value
  | GetReturns "sequenced_message list"

text \<open>An iteration either leaves \<open>getDeltas\<close> with its result, or leaves it with what
  the \<open>catch\<close> block raises, or goes on to sleep with a new retry counter, a new
  \<open>from\<close>, the deltas accumulated, and the delay.\<close>

datatype iteration =
    Return "sequenced_message list" dm_state
  | Raise failure dm_state
  | Continue nat int "sequenced_message list" int dm_state

text \<open>The end of the loop body, after the \<open>try\<close>: the retry counter, the delay, and
  the report of the delay.\<close>

definition nextRetry :: "nat \<Rightarrow> nat \<Rightarrow> nat" where
  "nextRetry deltasRetrievedLast retry = (if deltasRetrievedLast = 0 then retry + 1 else 0)"

definition fetchDelay :: "int \<Rightarrow> nat \<Rightarrow> int" where
  "fetchDelay retryAfter retry =
     (if retryAfter \<ge> 0 then retryAfter
      else min MaxFetchDelay (if retry \<noteq> 0 then MissingFetchDelay * 2 ^ retry else 0))"

definition sleepStep ::
  "nat \<Rightarrow> nat \<Rightarrow> int \<Rightarrow> int \<Rightarrow> sequenced_message list \<Rightarrow> dm_state \<Rightarrow> iteration" where
  "sleepStep deltasRetrievedLast retry retryAfter from allDeltas s =
     (let retry' = nextRetry deltasRetrievedLast retry;
          delay = fetchDelay retryAfter retry'
      in Continue retry' from allDeltas delay (emitDelayInfo DELTASTORAGE delay s))"

text \<open>\<open>retryAfter\<close> starts at 0 and takes \<open>error.retryAfterSeconds\<close> when the error is
  an object that defines it.\<close>

definition retryAfterOf :: "error_value \<Rightarrow> int" where
  "retryAfterOf error =
     (case error of
        ErrObject e \<Rightarrow> (case retryAfterSeconds e of Some r \<Rightarrow> r | None \<Rightarrow> 0)
      | _ \<Rightarrow> 0)"

text \<open>The \<open>catch\<close> block; the variable \<open>canRetry\<close> of the loop body (here \<open>canRetry'\<close>)
  is false until the storage is connected. What \<open>closeOnConnectionError\<close> raises is
  raised outside the \<open>try\<close> and leaves \<open>getDeltas\<close>.\<close>

definition catchBlock ::
  "bool \<Rightarrow> error_value \<Rightarrow> nat \<Rightarrow> int \<Rightarrow> sequenced_message list \<Rightarrow> dm_state \<Rightarrow> iteration" where
  "catchBlock canRetry' error retry from allDeltas s =
     (let s1 = sendTelemetryEvent ''GetDeltas_Error'' s
      in if \<not> canRetry' \<or> \<not> canRetryOnError error
         then (case closeOnConnectionError error s1 of
                 (Some f, s2) \<Rightarrow> Raise f s2
               | (None, s2) \<Rightarrow> Return [] s2)
         else sleepStep 0 retry (retryAfterOf error) from allDeltas s1)"

definition finished :: "int option \<Rightarrow> int \<Rightarrow> int \<Rightarrow> bool" where
  "finished to lastFetch maxFetchTo =
     (case to of None \<Rightarrow> lastFetch < maxFetchTo - 1 | Some t \<Rightarrow> t - 1 \<le> lastFetch)"

text \<open>
  The body of the loop up to the sleep. \<open>fetchTo\<close>, the minimum of \<open>maxFetchTo\<close> and
  \<open>to\<close>, only goes to the storage and to the log; what the storage answers is the
  argument \<open>r\<close>. A failure is taken to happen before the batch is appended.
\<close>

definition getDeltasIteration ::
  "int option \<Rightarrow> fetch_result \<Rightarrow> nat \<Rightarrow> int \<Rightarrow> sequenced_message list \<Rightarrow> dm_state \<Rightarrow> iteration" where
  "getDeltasIteration to r retry from allDeltas s =
     (let maxFetchTo = from + MaxBatchDeltas;
          s1 = s\<lparr>deltaStorageP := True\<rparr>
      in case r of
           ConnectToStorageFails error \<Rightarrow> catchBlock False error retry from allDeltas s1
         | GetFails error \<Rightarrow> catchBlock True error retry from allDeltas s1
         | GetReturns deltas \<Rightarrow>
             (let allDeltas' = allDeltas @ deltas;
                  deltasRetrievedLast = length deltas;
                  lastFetch = (if deltasRetrievedLast > 0 then sequenceNumber (last deltas) else from)
              in if finished to lastFetch maxFetchTo
                 then Return allDeltas' (emitDelayInfo DELTASTORAGE (- 1) s1)
                 else sleepStep deltasRetrievedLast retry 0 lastFetch allDeltas' s1))"

text \<open>How the promise of an asynchronous method settles.\<close>

datatype 'a settled = Resolved 'a | Rejected failure

text \<open>
  The loop. The script gives, for each iteration, whether \<open>close\<close> is called by
  someone else while the fetch is awaited, what the storage does, and whether \<open>close\<close>
  is called while the iteration sleeps. (\<open>close\<close> does not touch \<open>deltaStorageP\<close>, so
  a call during the fetch is applied before the body.) The loop need not end (the
  storage may fail forever): the result is \<open>None\<close> when the script is used up before
  \<open>getDeltas\<close> returns. Otherwise it tells how the promise settles: resolved with the
  value returned, or rejected with what the body raises outside the \<open>try\<close>.
\<close>

fun getDeltasLoop ::
  "int option \<Rightarrow> (bool \<times> fetch_result \<times> bool) list \<Rightarrow> nat \<Rightarrow> int \<Rightarrow> sequenced_message list
     \<Rightarrow> dm_state \<Rightarrow> (sequenced_message list settled \<times> dm_state) option" where
  "getDeltasLoop to [] retry from allDeltas s =
     (if closed s
      then Some (Resolved [],
                 emitDelayInfo DELTASTORAGE (- 1) (sendTelemetryEvent ''GetDeltasClosedConnection'' s))
      else None)"
| "getDeltasLoop to ((meanwhile, r, closing) # script) retry from allDeltas s =
     (if closed s
      then Some (Resolved [],
                 emitDelayInfo DELTASTORAGE (- 1) (sendTelemetryEvent ''GetDeltasClosedConnection'' s))
      else case getDeltasIteration to r retry from allDeltas (if meanwhile then close s else s) of
             Return result s' \<Rightarrow> Some (Resolved result, s')
           | Raise f s' \<Rightarrow> Some (Rejected f, s')
           | Continue retry' from' allDeltas' delay s' \<Rightarrow>
               getDeltasLoop to script retry' from' allDeltas' (if closing then close s' else s'))"

definition getDeltas ::
  "int \<Rightarrow> int option \<Rightarrow> (bool \<times> fetch_result \<times> bool) list \<Rightarrow> dm_state
     \<Rightarrow> (sequenced_message list settled \<times> dm_state) option" where
  "getDeltas fromInitial to script s = getDeltasLoop to script 0 fromInitial [] s"

section \<open>The epoch tracker\<close>

datatype FetchType =
    blob | createBlob | createFile | joinSession | ops | other | snapshotTree
  | treesLatest | uploadSummary | push | versions

datatype OdspErrorType = epochVersionMismatch | throttlingError | otherErrorType string

text \<open>An error object as the tracker reads it; every field is optional.\<close>

record odsp_error =
  errorType :: "OdspErrorType option"
  statusCode :: "int option"
  errorMessage :: "string option"
  retryAfterMs :: "int option"

text \<open>
  Modelled from the spec: \<open>throwOdspNetworkError\<close>, the constant
  \<open>fluidEpochMismatchError\<close>, the class \<open>ThrottlingError\<close> and \<open>assert\<close> are imported
  by the source and are not part of it. The first raises the epoch-mismatch error with
  the given message (status 409), the second is built from a message, a retry-after of
  1000 and the status 429, and a failed assertion raises an error carrying its message.
\<close>

definition fluidEpochMismatchError :: int where
  "fluidEpochMismatchError = 409"

definition odspNetworkError :: "string \<Rightarrow> int \<Rightarrow> odsp_error" where
  "odspNetworkError msg code =
     \<lparr> errorType = (if code = fluidEpochMismatchError then Some epochVersionMismatch
                      else Some (otherErrorType ''genericNetworkError'')),
       statusCode = Some code, errorMessage = Some msg, retryAfterMs = None \<rparr>"

definition ThrottlingError :: "string option \<Rightarrow> int \<Rightarrow> int \<Rightarrow> odsp_error" where
  "ThrottlingError msg retryAfter code =
     \<lparr> errorType = Some throttlingError, statusCode = Some code, errorMessage = msg,
       retryAfterMs = Some retryAfter \<rparr>"

definition assertionError :: "string \<Rightarrow> odsp_error" where
  "assertionError msg =
     \<lparr> errorType = None, statusCode = None, errorMessage = Some msg, retryAfterMs = None \<rparr>"

text \<open>
  An epoch read from a response is a string, null or undefined; null and undefined are
  both \<open>None\<close> (the source never tells them apart). The source tests presence by
  truthiness, so the empty string counts as absent.
\<close>

definition truthy :: "string option \<Rightarrow> bool" where
  "truthy v = (case v of None \<Rightarrow> False | Some x \<Rightarrow> x \<noteq> [])"

type_synonym file_entry = string

record cache_entry =
  ce_file :: file_entry
  ce_type :: string
  ce_key :: string

record cached_value =
  cv_fluidEpoch :: "string option"
  cv_value :: string

datatype log_event =
    EpochLearnedFirstTime string FetchType bool
  | EpochVersionMismatch odsp_error bool "string option" FetchType
  | Coherency409 odsp_error

text \<open>One-shot completion (class \<open>Deferred\<close>, imported by the source).
  Modelled from the spec: one producer resolves or rejects; once completed, a further
  \<open>resolve\<close> or \<open>reject\<close> changes nothing.\<close>

datatype latch = LatchPending | LatchResolved | LatchRejected odsp_error

definition isCompleted :: "latch \<Rightarrow> bool" where
  "isCompleted l = (l \<noteq> LatchPending)"

definition deferred_resolve :: "latch \<Rightarrow> latch" where
  "deferred_resolve l = (if l = LatchPending then LatchResolved else l)"

definition deferred_reject :: "odsp_error \<Rightarrow> latch \<Rightarrow> latch" where
  "deferred_reject e l = (if l = LatchPending then LatchRejected e else l)"

text \<open>
  The state of an \<open>EpochTracker\<close>: its two fields, the persisted cache (modelled from
  the spec: a store of entries, each under a file entry, from which \<open>removeEntries\<close>
  drops all entries of one file), and the effects on the outside: the events logged,
  the file entries \<open>removeEntries\<close> was called with, and the requests sent (fetch type
  and the epoch attached). The subclass \<open>EpochTrackerWithRedemption\<close> adds the latch.
\<close>

record et_state =
  fluidEpoch :: "string option"
  fileEntry :: "file_entry option"
  persistedCache :: "(cache_entry \<times> cached_value) list"
  logged :: "log_event list"
  removeEntriesCalls :: "file_entry list"
  requests :: "(FetchType \<times> string option) list"

record etr_state = et_state +
  treesLatestDeferral :: latch

definition removeEntries :: "file_entry \<Rightarrow> 'a et_state_scheme \<Rightarrow> 'a et_state_scheme" where
  "removeEntries f s =
     s\<lparr>persistedCache := filter (\<lambda>(e, v). ce_file e \<noteq> f) (persistedCache s),
       removeEntriesCalls := removeEntriesCalls s @ [f]\<rparr>"

definition sendEvent :: "log_event \<Rightarrow> 'a et_state_scheme \<Rightarrow> 'a et_state_scheme" where
  "sendEvent ev s = s\<lparr>logged := logged s @ [ev]\<rparr>"

text \<open>\<open>checkForEpochErrorCore\<close> raises (\<open>Some\<close>) or returns (\<open>None\<close>); it changes nothing.\<close>

definition checkForEpochErrorCore ::
  "string option \<Rightarrow> string option \<Rightarrow> 'a et_state_scheme \<Rightarrow> odsp_error option" where
  "checkForEpochErrorCore epochFromResponse msg s =
     (if truthy (fluidEpoch s) \<and> truthy epochFromResponse \<and> fluidEpoch s \<noteq> epochFromResponse
      then Some (odspNetworkError (case msg of Some m \<Rightarrow> m | None \<Rightarrow> ''Epoch Mismatch'')
                   fluidEpochMismatchError)
      else None)"

text \<open>The methods below return what they raise, if anything, and the state they leave.\<close>

definition validateEpochFromResponse ::
  "string option \<Rightarrow> FetchType \<Rightarrow> bool \<Rightarrow> 'a et_state_scheme
     \<Rightarrow> odsp_error option \<times> 'a et_state_scheme" where
  "validateEpochFromResponse epochFromResponse fetchType fromCache s =
     (case checkForEpochErrorCore epochFromResponse None s of
        Some e \<Rightarrow> (Some e, s)
      | None \<Rightarrow>
          if truthy epochFromResponse
          then let s1 = (if fluidEpoch s = None
                         then sendEvent (EpochLearnedFirstTime (the epochFromResponse) fetchType fromCache) s
                         else s)
               in (None, s1\<lparr>fluidEpoch := epochFromResponse\<rparr>)
          else (None, s))"

definition checkForEpochError ::
  "odsp_error \<Rightarrow> string option \<Rightarrow> FetchType \<Rightarrow> bool \<Rightarrow> 'a et_state_scheme
     \<Rightarrow> odsp_error option \<times> 'a et_state_scheme" where
  "checkForEpochError error epochFromResponse fetchType fromCache s =
     (if errorType error = Some epochVersionMismatch
      then case checkForEpochErrorCore epochFromResponse (errorMessage error) s of
             Some epochError \<Rightarrow>
               (let s1 = sendEvent (EpochVersionMismatch epochError fromCache (fluidEpoch s) fetchType) s
                in case fileEntry s1 of
                     None \<Rightarrow>
                       (Some (assertionError ''File Entry should be set to clear the cached entries!!''), s1)
                   | Some f \<Rightarrow> (Some epochError, removeEntries f s1))
           | None \<Rightarrow>
               (Some (ThrottlingError (errorMessage error) 1000 429), sendEvent (Coherency409 error) s)
      else (None, s))"

text \<open>The \<open>catch\<close> block shared by the fetch methods: \<open>checkForEpochError\<close>, then the
  caught error again unless the check raised one itself.\<close>

definition rethrow ::
  "odsp_error \<Rightarrow> string option \<Rightarrow> FetchType \<Rightarrow> bool \<Rightarrow> 'a et_state_scheme
     \<Rightarrow> odsp_error \<times> 'a et_state_scheme" where
  "rethrow error epochFromResponse fetchType fromCache s =
     (case checkForEpochError error epochFromResponse fetchType fromCache s of
        (Some e, s') \<Rightarrow> (e, s')
      | (None, s') \<Rightarrow> (error, s'))"

record response =
  epochHeader :: "string option"
  body :: string

text \<open>
  \<open>fetchAndParseAsJSON\<close> of the base class. The call of \<open>validateEpochFromResponse\<close>
  is dispatched on the object, so the method is its first argument. The outcome of the
  network request (through the rate limiter) is given: an error or a response. The
  request is recorded with the epoch attached to it; how the epoch is attached (query
  parameter, header or body) is left out.
\<close>

definition fetchAndParseAsJSON_with ::
  "(string option \<Rightarrow> FetchType \<Rightarrow> bool \<Rightarrow> 'a et_state_scheme \<Rightarrow> odsp_error option \<times> 'a et_state_scheme)
     \<Rightarrow> FetchType \<Rightarrow> odsp_error + response \<Rightarrow> 'a et_state_scheme
     \<Rightarrow> (odsp_error + response) \<times> 'a et_state_scheme" where
  "fetchAndParseAsJSON_with validate fetchType net s =
     (let s1 = s\<lparr>requests := requests s @ [(fetchType, fluidEpoch s)]\<rparr>
      in case net of
           Inl error \<Rightarrow> (case rethrow error None fetchType False s1 of (e, s2) \<Rightarrow> (Inl e, s2))
         | Inr resp \<Rightarrow>
             (case validate (epochHeader resp) fetchType False s1 of
                (Some error, s2) \<Rightarrow>
                  (case rethrow error (epochHeader resp) fetchType False s2 of (e, s3) \<Rightarrow> (Inl e, s3))
              | (None, s2) \<Rightarrow> (Inr resp, s2)))"

definition fetchAndParseAsJSON ::
  "FetchType \<Rightarrow> odsp_error + response \<Rightarrow> et_state \<Rightarrow> (odsp_error + response) \<times> et_state" where
  "fetchAndParseAsJSON = fetchAndParseAsJSON_with validateEpochFromResponse"

text \<open>\<open>fetchFromCache\<close>, with the persisted cache read as an association list.\<close>

definition fetchFromCache ::
  "cache_entry \<Rightarrow> FetchType \<Rightarrow> et_state \<Rightarrow> (odsp_error + string option) \<times> et_state" where
  "fetchFromCache entry fetchType s =
     (case map_of (persistedCache s) entry of
        None \<Rightarrow> (Inr None, s)
      | Some v \<Rightarrow>
          (case validateEpochFromResponse (cv_fluidEpoch v) fetchType True s of
             (Some error, s1) \<Rightarrow>
               (case rethrow error (cv_fluidEpoch v) fetchType True s1 of (e, s2) \<Rightarrow> (Inl e, s2))
           | (None, s1) \<Rightarrow> (Inr (Some (cv_value v)), s1)))"

subsection \<open>The redemption variant\<close>

definition validateEpochFromResponse_redemption ::
  "string option \<Rightarrow> FetchType \<Rightarrow> bool \<Rightarrow> etr_state \<Rightarrow> odsp_error option \<times> etr_state" where
  "validateEpochFromResponse_redemption epochFromResponse fetchType fromCache s =
     (case validateEpochFromResponse epochFromResponse fetchType fromCache s of
        (Some e, s1) \<Rightarrow> (Some e, s1)
      | (None, s1) \<Rightarrow> (None, s1\<lparr>treesLatestDeferral := deferred_resolve (treesLatestDeferral s1)\<rparr>))"

definition super_fetchAndParseAsJSON ::
  "FetchType \<Rightarrow> odsp_error + response \<Rightarrow> etr_state \<Rightarrow> (odsp_error + response) \<times> etr_state" where
  "super_fetchAndParseAsJSON = fetchAndParseAsJSON_with validateEpochFromResponse_redemption"

text \<open>How the latch is completed by other calls while this one is suspended, if at all.\<close>

datatype completion = Resolve | RejectWith odsp_error

text \<open>
  \<open>fetchAndParseAsJSON\<close> of the redemption variant. \<open>net1\<close> and \<open>net2\<close> are the outcomes
  of the first request and of the repeated one. No callback is ever set on the latch,
  so \<open>triggerCallbackAndAwaitPromise\<close> awaits the latch: the call goes on when the latch
  is resolved, raises the latch's error when it is rejected, and never returns
  (\<open>None\<close>) when nobody completes the latch.
\<close>

definition fetchAndParseAsJSON_redemption ::
  "FetchType \<Rightarrow> odsp_error + response \<Rightarrow> completion option \<Rightarrow> odsp_error + response
     \<Rightarrow> etr_state \<Rightarrow> ((odsp_error + response) \<times> etr_state) option" where
  "fetchAndParseAsJSON_redemption fetchType net1 others net2 s =
     (let completed = isCompleted (treesLatestDeferral s)
      in case super_fetchAndParseAsJSON fetchType net1 s of
           (Inr resp, s1) \<Rightarrow> Some (Inr resp, s1)
         | (Inl error, s1) \<Rightarrow>
             (let s2 = (if fetchType = treesLatest
                        then s1\<lparr>treesLatestDeferral := deferred_reject error (treesLatestDeferral s1)\<rparr>
                        else s1)
              in if fetchType \<noteq> joinSession \<or> statusCode error \<noteq> Some 404 \<or> completed
                 then Some (Inl error, s2)
                 else case treesLatestDeferral s2 of
                        LatchResolved \<Rightarrow> Some (super_fetchAndParseAsJSON fetchType net2 s2)
                      | LatchRejected e \<Rightarrow> Some (Inl e, s2)
                      | LatchPending \<Rightarrow>
                          (case others of
                             None \<Rightarrow> None
                           | Some Resolve \<Rightarrow>
                               Some (super_fetchAndParseAsJSON fetchType net2
                                       (s2\<lparr>treesLatestDeferral := LatchResolved\<rparr>))
                           | Some (RejectWith e) \<Rightarrow>
                               Some (Inl e, s2\<lparr>treesLatestDeferral := LatchRejected e\<rparr>))))"

section \<open>Example states\<close>

definition msg :: "int \<Rightarrow> sequenced_message" where
  "msg n = \<lparr>clientId = ''a'', sequenceNumber = n, minimumSequenceNumber = 0,
            m_clientSequenceNumber = n, m_type = Operation\<rparr>"

definition browser_manager :: dm_state where
  "browser_manager = new_DeltaManager Browser (Some Write) True"

text \<open>The manager after \<open>attachOpHandler(0, 0, handler, false)\<close> and after
  \<open>attachOpHandler(0, 0, handler, true)\<close>.\<close>

definition attached_manager :: dm_state where
  "attached_manager = browser_manager\<lparr>handler := True\<rparr>"

definition opened_manager :: dm_state where
  "opened_manager =
     browser_manager\<lparr>handler := True,
       inbound := \<lparr>q_items = [], q_paused = False\<rparr>,
       inboundSignal := \<lparr>q_items = [], q_paused = False\<rparr>,
       fetching := True, getDeltasCalls := [(''DocumentOpen'', 0, None)]\<rparr>"

lemmas example_defs = msg_def browser_manager_def attached_manager_def opened_manager_def
  new_DeltaManager_def q_push_def

lemma attachOpHandler_examples:
  "attachOpHandler 0 0 False browser_manager = Inr attached_manager"
  "attachOpHandler 0 0 True browser_manager = Inr opened_manager"
  by (simp_all add: attachOpHandler_def browser_manager_def attached_manager_def opened_manager_def
      new_DeltaManager_def fetchMissingDeltas_def q_systemResume_def Let_def)

section \<open>Claim C1: the three cases of enqueueMessages\<close>

lemma handler_enqueueMessage: "handler (enqueueMessage m s) = handler s"
  by (simp add: enqueueMessage_def handleOutOfOrderMessage_def fetchMissingDeltas_def
      sendTelemetryEvent_def)

lemma enqueueMessages_Cons:
  "handler s \<Longrightarrow> enqueueMessages (m # ms) s = enqueueMessages ms (enqueueMessages [m] s)"
  by (simp add: enqueueMessages_def handler_enqueueMessage)

lemma enqueueMessages_in_order:
  "handler s \<Longrightarrow> sequenceNumber m = lastQueuedSequenceNumber s + 1 \<Longrightarrow>
     enqueueMessages [m] s =
       s\<lparr>lastQueuedSequenceNumber := sequenceNumber m, inbound := q_push m (inbound s)\<rparr>"
  by (simp add: enqueueMessages_def enqueueMessage_def)

lemma enqueueMessages_gap:
  "handler s \<Longrightarrow> sequenceNumber m > lastQueuedSequenceNumber s + 1 \<Longrightarrow>
     enqueueMessages [m] s =
       fetchMissingDeltas ''OutOfOrderMessage'' (lastQueuedSequenceNumber s)
         (Some (sequenceNumber m)) (s\<lparr>pending := pending s @ [m]\<rparr>)"
  by (simp add: enqueueMessages_def enqueueMessage_def handleOutOfOrderMessage_def)

lemma enqueueMessages_duplicate:
  "handler s \<Longrightarrow> sequenceNumber m \<le> lastQueuedSequenceNumber s \<Longrightarrow>
     enqueueMessages [m] s =
       s\<lparr>duplicateMsgCount := duplicateMsgCount s + 1,
         telemetry := telemetry s @ [''DuplicateMessage'']\<rparr>"
  by (simp add: enqueueMessages_def enqueueMessage_def handleOutOfOrderMessage_def
      sendTelemetryEvent_def)

lemma fetchMissingDeltas_starts:
  "\<not> fetching s \<Longrightarrow> \<not> closed s \<Longrightarrow>
     fetchMissingDeltas suffix from to s =
       s\<lparr>fetching := True, getDeltasCalls := getDeltasCalls s @ [(suffix, from, to)]\<rparr>"
  by (simp add: fetchMissingDeltas_def)

lemma fetchMissingDeltas_skips:
  "fetching s \<or> closed s \<Longrightarrow>
     getDeltasCalls (fetchMissingDeltas suffix from to s) = getDeltasCalls s \<and>
     fetching (fetchMissingDeltas suffix from to s) = fetching s"
  by (auto simp add: fetchMissingDeltas_def sendTelemetryEvent_def)

text \<open>
  Claim C1, as amended. With a handler attached, \<open>enqueueMessages\<close> treats its messages
  one after the other, and for each message exactly one of three cases applies. A
  message whose sequence number is \<open>lastQueuedSequenceNumber + 1\<close> becomes the last
  queued one and is pushed onto the inbound queue. A message with a greater sequence
  number is appended to the pending list and \<open>fetchMissingDeltas\<close> is called for the
  range from \<open>lastQueuedSequenceNumber\<close> to its sequence number; that call starts a
  fetch of this range when no fetch is in flight and the manager is not closed, and
  starts none otherwise. A message with a sequence number up to
  \<open>lastQueuedSequenceNumber\<close> is dropped and the duplicate counter grows by one.
\<close>

theorem enqueueMessages_three_cases:
  assumes "handler s"
  shows "enqueueMessages (m # ms) s = enqueueMessages ms (enqueueMessages [m] s) \<and>
    (sequenceNumber m = lastQueuedSequenceNumber s + 1 \<longrightarrow>
       enqueueMessages [m] s =
         s\<lparr>lastQueuedSequenceNumber := sequenceNumber m, inbound := q_push m (inbound s)\<rparr>) \<and>
    (sequenceNumber m > lastQueuedSequenceNumber s + 1 \<longrightarrow>
       enqueueMessages [m] s =
         fetchMissingDeltas ''OutOfOrderMessage'' (lastQueuedSequenceNumber s)
           (Some (sequenceNumber m)) (s\<lparr>pending := pending s @ [m]\<rparr>) \<and>
       pending (enqueueMessages [m] s) = pending s @ [m] \<and>
       lastQueuedSequenceNumber (enqueueMessages [m] s) = lastQueuedSequenceNumber s \<and>
       inbound (enqueueMessages [m] s) = inbound s \<and>
       duplicateMsgCount (enqueueMessages [m] s) = duplicateMsgCount s \<and>
       (\<not> fetching s \<and> \<not> closed s \<longrightarrow>
          fetching (enqueueMessages [m] s) \<and>
          getDeltasCalls (enqueueMessages [m] s) =
            getDeltasCalls s @
              [(''OutOfOrderMessage'', lastQueuedSequenceNumber s, Some (sequenceNumber m))]) \<and>
       (fetching s \<or> closed s \<longrightarrow>
          fetching (enqueueMessages [m] s) = fetching s \<and>
          getDeltasCalls (enqueueMessages [m] s) = getDeltasCalls s)) \<and>
    (sequenceNumber m \<le> lastQueuedSequenceNumber s \<longrightarrow>
       enqueueMessages [m] s =
         s\<lparr>duplicateMsgCount := duplicateMsgCount s + 1,
           telemetry := telemetry s @ [''DuplicateMessage'']\<rparr>)"
proof (intro conjI impI)
  show "enqueueMessages (m # ms) s = enqueueMessages ms (enqueueMessages [m] s)"
    using assms by (rule enqueueMessages_Cons)
next
  assume "sequenceNumber m = lastQueuedSequenceNumber s + 1"
  with assms show "enqueueMessages [m] s =
      s\<lparr>lastQueuedSequenceNumber := sequenceNumber m, inbound := q_push m (inbound s)\<rparr>"
    by (rule enqueueMessages_in_order)
next
  assume "sequenceNumber m \<le> lastQueuedSequenceNumber s"
  with assms show "enqueueMessages [m] s =
      s\<lparr>duplicateMsgCount := duplicateMsgCount s + 1,
        telemetry := telemetry s @ [''DuplicateMessage'']\<rparr>"
    by (rule enqueueMessages_duplicate)
next
  assume gap: "lastQueuedSequenceNumber s + 1 < sequenceNumber m"
  note eq = enqueueMessages_gap [OF assms gap]
  show "enqueueMessages [m] s =
      fetchMissingDeltas ''OutOfOrderMessage'' (lastQueuedSequenceNumber s)
        (Some (sequenceNumber m)) (s\<lparr>pending := pending s @ [m]\<rparr>)"
    by (rule eq)
  show "pending (enqueueMessages [m] s) = pending s @ [m]"
    "lastQueuedSequenceNumber (enqueueMessages [m] s) = lastQueuedSequenceNumber s"
    "inbound (enqueueMessages [m] s) = inbound s"
    "duplicateMsgCount (enqueueMessages [m] s) = duplicateMsgCount s"
    by (simp_all add: eq fetchMissingDeltas_def sendTelemetryEvent_def)
  {
    assume "\<not> fetching s \<and> \<not> closed s"
    then show "fetching (enqueueMessages [m] s)"
      "getDeltasCalls (enqueueMessages [m] s) =
         getDeltasCalls s @
           [(''OutOfOrderMessage'', lastQueuedSequenceNumber s, Some (sequenceNumber m))]"
      by (simp_all add: eq fetchMissingDeltas_starts)
  }
  {
    assume "fetching s \<or> closed s"
    then have "fetching (s\<lparr>pending := pending s @ [m]\<rparr>) \<or> closed (s\<lparr>pending := pending s @ [m]\<rparr>)"
      by simp
    from fetchMissingDeltas_skips [OF this]
    show "fetching (enqueueMessages [m] s) = fetching s"
      "getDeltasCalls (enqueueMessages [m] s) = getDeltasCalls s"
      by (simp_all add: eq)
  }
qed

theorem enqueueMessages_three_cases_witness:
  "handler attached_manager \<and>
   enqueueMessages [msg 1, msg 2] attached_manager =
     enqueueMessages [msg 2] (enqueueMessages [msg 1] attached_manager) \<and>
   enqueueMessages [msg 1] attached_manager =
     attached_manager\<lparr>lastQueuedSequenceNumber := 1,
       inbound := \<lparr>q_items = [msg 1], q_paused = True\<rparr>\<rparr> \<and>
   enqueueMessages [msg 4] attached_manager =
     attached_manager\<lparr>pending := [msg 4], fetching := True,
       getDeltasCalls := [(''OutOfOrderMessage'', 0, Some 4)]\<rparr> \<and>
   fetching opened_manager \<and>
   pending (enqueueMessages [msg 4] opened_manager) = [msg 4] \<and>
   getDeltasCalls (enqueueMessages [msg 4] opened_manager) = [(''DocumentOpen'', 0, None)] \<and>
   enqueueMessages [msg 0] attached_manager =
     attached_manager\<lparr>duplicateMsgCount := 1, telemetry := [''DuplicateMessage'']\<rparr>"
proof -
  have h: "handler attached_manager" and h': "handler opened_manager"
    by (simp_all add: example_defs)
  show ?thesis
    using enqueueMessages_three_cases [OF h, of "msg 1" "[msg 2]"]
      enqueueMessages_three_cases [OF h, of "msg 4" "[]"]
      enqueueMessages_three_cases [OF h', of "msg 4" "[]"]
      enqueueMessages_three_cases [OF h, of "msg 0" "[]"]
    by (simp add: example_defs fetchMissingDeltas_def)
qed

text \<open>
  The claim as stated promises a fetch for every message that arrives ahead of its
  turn. Right after \<open>attachOpHandler(0, 0, handler, true)\<close> the fetch of the document's
  deltas is in flight; message 4 arrives, is appended to the pending list, and no fetch
  for the range from 0 to 4 is started.
\<close>

theorem enqueueMessages_gap_fetch_counterexample:
  "attachOpHandler 0 0 True browser_manager = Inr opened_manager \<and>
   handler opened_manager \<and>
   lastQueuedSequenceNumber opened_manager + 1 < sequenceNumber (msg 4) \<and>
   pending (enqueueMessages [msg 4] opened_manager) = [msg 4] \<and>
   getDeltasCalls (enqueueMessages [msg 4] opened_manager) = getDeltasCalls opened_manager \<and>
   (''OutOfOrderMessage'', lastQueuedSequenceNumber opened_manager, Some (sequenceNumber (msg 4)))
     \<notin> set (getDeltasCalls (enqueueMessages [msg 4] opened_manager))"
  using attachOpHandler_examples(2)
  by (simp add: enqueueMessages_def enqueueMessage_def
      handleOutOfOrderMessage_def fetchMissingDeltas_def example_defs)

section \<open>Claims C2, C3 and C10: the loop of getDeltas\<close>

lemma closed_close: "closed (close s)"
  by (simp add: close_def stopSequenceNumberUpdate_def clearTimeout_def Let_def
      split: option.split)

lemma errorListeners_close: "errorListeners (close s) = 0"
  by (simp add: close_def stopSequenceNumberUpdate_def clearTimeout_def Let_def
      split: option.split)

text \<open>\<open>closeOnConnectionError\<close> closes the manager when there is no error to emit or
  somebody listens for it, and raises without closing otherwise.\<close>

lemma closeOnConnectionError_closes:
  "\<not> truthy_error e \<or> 0 < errorListeners s \<Longrightarrow>
     fst (closeOnConnectionError e s) = None \<and> closed (snd (closeOnConnectionError e s))"
  by (auto simp add: closeOnConnectionError_def emit_error_def emit_def Let_def closed_close
      split: option.split)

lemma closeOnConnectionError_raises:
  "truthy_error e \<and> errorListeners s = 0 \<Longrightarrow>
     fst (closeOnConnectionError e s) = Some (UnhandledError e) \<and>
     closed (snd (closeOnConnectionError e s)) = closed s \<and>
     errorListeners (snd (closeOnConnectionError e s)) = 0"
  by (auto simp add: closeOnConnectionError_def emit_error_def Let_def split: option.split)

lemma closeOnConnectionError_Some:
  "closeOnConnectionError e s = (Some f, s') \<Longrightarrow>
     f = UnhandledError e \<and> truthy_error e \<and> errorListeners s = 0 \<and> errorListeners s' = 0 \<and>
     closed s' = closed s"
  by (auto simp add: closeOnConnectionError_def emit_error_def Let_def
      split: option.splits if_splits)

lemma closed_emitDelayInfo [simp]: "closed (emitDelayInfo w d s) = closed s"
  by (simp add: emitDelayInfo_def emit_def Let_def split: retryFor.split)

lemma errorListeners_emitDelayInfo [simp]:
  "errorListeners (emitDelayInfo w d s) = errorListeners s"
  by (simp add: emitDelayInfo_def emit_def Let_def split: retryFor.split)

lemma closed_sendTelemetryEvent [simp]: "closed (sendTelemetryEvent n s) = closed s"
  by (simp add: sendTelemetryEvent_def)

lemma errorListeners_sendTelemetryEvent [simp]:
  "errorListeners (sendTelemetryEvent n s) = errorListeners s"
  by (simp add: sendTelemetryEvent_def)

lemma getDeltasIteration_GetReturns:
  "getDeltasIteration to (GetReturns deltas) retry from allDeltas s =
     (if finished to (if deltas = [] then from else sequenceNumber (last deltas)) (from + 2000)
      then Return (allDeltas @ deltas) (emitDelayInfo DELTASTORAGE (- 1) (s\<lparr>deltaStorageP := True\<rparr>))
      else sleepStep (length deltas) retry 0 (if deltas = [] then from else sequenceNumber (last deltas))
             (allDeltas @ deltas) (s\<lparr>deltaStorageP := True\<rparr>))"
  by (simp add: getDeltasIteration_def Let_def MaxBatchDeltas_def)

text \<open>
  Claim C2 fails on the code. \<open>retryAfter\<close> starts at 0 and the delay is \<open>retryAfter\<close>
  whenever \<open>retryAfter \<ge> 0\<close>, so the exponential branch is reached only for a negative
  \<open>retryAfterSeconds\<close>. With \<open>to = 5\<close>, \<open>from = 0\<close> and an empty batch the iteration goes
  on with the retry counter raised to \<open>k + 1\<close>, and the sleep is 0, not
  \<open>min(10000, 100 * 2^(k + 1))\<close>; the same holds after a retryable error without
  \<open>retryAfterSeconds\<close>.
\<close>

theorem getDeltas_delay_without_backoff:
  "getDeltasIteration (Some 5) (GetReturns []) k 0 [] s =
     Continue (k + 1) 0 [] 0 (emitDelayInfo DELTASTORAGE 0 (s\<lparr>deltaStorageP := True\<rparr>)) \<and>
   getDeltasIteration (Some 5) (GetFails ErrNull) k 0 [] s =
     Continue (k + 1) 0 [] 0
       (emitDelayInfo DELTASTORAGE 0
          (sendTelemetryEvent ''GetDeltas_Error'' (s\<lparr>deltaStorageP := True\<rparr>))) \<and>
   min MaxFetchDelay (MissingFetchDelay * 2 ^ (k + 1)) \<noteq> 0"
proof -
  have "(0::int) < 100 * 2 ^ (k + 1)"
    by simp
  then have "min (10000::int) (100 * 2 ^ (k + 1)) \<noteq> 0"
    by (simp add: min_def)
  then show ?thesis
    by (simp add: getDeltasIteration_GetReturns getDeltasIteration_def catchBlock_def
        retryAfterOf_def finished_def sleepStep_def Let_def nextRetry_def fetchDelay_def
        MaxFetchDelay_def MissingFetchDelay_def)
qed

text \<open>
  Claim C3. An iteration of \<open>getDeltas(from, to)\<close> whose fetch returns a batch computes
  \<open>maxFetchTo = from + 2000\<close>. With \<open>lastFetch\<close> the sequence number of the last delta of
  the batch, or \<open>from\<close> for an empty batch, it returns all deltas accumulated so far,
  the batch included, exactly when \<open>lastFetch < maxFetchTo - 1\<close> (no \<open>to\<close>) or
  \<open>to - 1 \<le> lastFetch\<close> (with \<open>to\<close>), and then \<open>getDeltas\<close> resolves with them. Otherwise
  the iteration does not return: the loop goes on, after the sleep, with \<open>from\<close> set to
  \<open>lastFetch\<close>. This holds whether or not \<open>close\<close> is called while the fetch is awaited
  (\<open>meanwhile\<close>): the state \<open>sm\<close> is the one the iteration finds after the fetch.
\<close>

theorem getDeltas_termination_rule:
  assumes "\<not> closed s"
    and "lastFetch = (if deltas = [] then from else sequenceNumber (last deltas))"
    and "maxFetchTo = from + 2000"
    and "sm = (if meanwhile then close s else s)"
    and "s1 = sm\<lparr>deltaStorageP := True\<rparr>"
  shows
    "((case to of None \<Rightarrow> lastFetch < maxFetchTo - 1 | Some t \<Rightarrow> t - 1 \<le> lastFetch) \<longrightarrow>
        getDeltasIteration to (GetReturns deltas) retry from allDeltas sm =
          Return (allDeltas @ deltas) (emitDelayInfo DELTASTORAGE (- 1) s1) \<and>
        getDeltasLoop to ((meanwhile, GetReturns deltas, closing) # script) retry from allDeltas s =
          Some (Resolved (allDeltas @ deltas), emitDelayInfo DELTASTORAGE (- 1) s1)) \<and>
     (\<not> (case to of None \<Rightarrow> lastFetch < maxFetchTo - 1 | Some t \<Rightarrow> t - 1 \<le> lastFetch) \<longrightarrow>
        getDeltasIteration to (GetReturns deltas) retry from allDeltas sm =
          sleepStep (length deltas) retry 0 lastFetch (allDeltas @ deltas) s1 \<and>
        (\<exists>retry' delay s'.
           sleepStep (length deltas) retry 0 lastFetch (allDeltas @ deltas) s1 =
             Continue retry' lastFetch (allDeltas @ deltas) delay s' \<and>
           getDeltasLoop to ((meanwhile, GetReturns deltas, closing) # script) retry from allDeltas s =
             getDeltasLoop to script retry' lastFetch (allDeltas @ deltas)
               (if closing then close s' else s')))"
  using assms(1) unfolding assms(2,3,4,5)
  by (simp add: getDeltasIteration_GetReturns finished_def sleepStep_def Let_def)

text \<open>Two batches for \<open>getDeltas(0, 5)\<close>: after deltas 1 and 2 the loop goes on from 2,
  after deltas 3 and 4 it returns all four. Without \<open>to\<close> the first batch ends it, also
  when \<open>close\<close> is called during the fetch.\<close>

theorem getDeltas_termination_rule_witness:
  "map_option fst
     (getDeltas 0 (Some 5)
        [(False, GetReturns [msg 1, msg 2], False), (False, GetReturns [msg 3, msg 4], False)]
        browser_manager) =
     Some (Resolved [msg 1, msg 2, msg 3, msg 4]) \<and>
   getDeltasLoop (Some 5)
       [(False, GetReturns [msg 1, msg 2], False), (False, GetReturns [msg 3, msg 4], False)]
       0 0 [] browser_manager =
     getDeltasLoop (Some 5) [(False, GetReturns [msg 3, msg 4], False)] 0 2 [msg 1, msg 2]
       (emitDelayInfo DELTASTORAGE 0 (browser_manager\<lparr>deltaStorageP := True\<rparr>)) \<and>
   map_option fst
     (getDeltas 0 None [(False, GetReturns [msg 1, msg 2], False)] browser_manager) =
     Some (Resolved [msg 1, msg 2]) \<and>
   map_option fst
     (getDeltas 0 None [(True, GetReturns [msg 1, msg 2], False)] browser_manager) =
     Some (Resolved [msg 1, msg 2])"
proof -
  have open0: "\<not> closed browser_manager"
    by (simp add: example_defs)
  let ?s1 = "emitDelayInfo DELTASTORAGE 0 (browser_manager\<lparr>deltaStorageP := True\<rparr>)"
  have open1: "\<not> closed ?s1"
    by (simp add: example_defs)
  note first = getDeltas_termination_rule [OF open0 refl refl refl refl,
      of "[msg 1, msg 2]" 0 "Some 5" 0 "[]" False False
        "[(False, GetReturns [msg 3, msg 4], False)]"]
  note second = getDeltas_termination_rule [OF open1 refl refl refl refl,
      of "[msg 3, msg 4]" 2 "Some 5" 0 "[msg 1, msg 2]" False False "[]"]
  note unbounded = getDeltas_termination_rule [OF open0 refl refl refl refl,
      of "[msg 1, msg 2]" 0 None 0 "[]" False False "[]"]
  note closedMeanwhile = getDeltas_termination_rule [OF open0 refl refl refl refl,
      of "[msg 1, msg 2]" 0 None 0 "[]" True False "[]"]
  have step: "getDeltasLoop (Some 5)
        [(False, GetReturns [msg 1, msg 2], False), (False, GetReturns [msg 3, msg 4], False)] 0 0 []
        browser_manager =
      getDeltasLoop (Some 5) [(False, GetReturns [msg 3, msg 4], False)] 0 2 [msg 1, msg 2] ?s1"
    using first by (simp add: msg_def sleepStep_def nextRetry_def fetchDelay_def Let_def)
  have last: "map_option fst
      (getDeltasLoop (Some 5) [(False, GetReturns [msg 3, msg 4], False)] 0 2 [msg 1, msg 2] ?s1) =
      Some (Resolved [msg 1, msg 2, msg 3, msg 4])"
    using second by (simp add: msg_def)
  have unb: "map_option fst
      (getDeltas 0 None [(False, GetReturns [msg 1, msg 2], False)] browser_manager) =
      Some (Resolved [msg 1, msg 2])"
    using unbounded by (simp add: msg_def getDeltas_def)
  have mean: "map_option fst
      (getDeltas 0 None [(True, GetReturns [msg 1, msg 2], False)] browser_manager) =
      Some (Resolved [msg 1, msg 2])"
    using closedMeanwhile by (simp add: msg_def getDeltas_def)
  show ?thesis
    using step last unb mean by (simp add: getDeltas_def)
qed

lemma getDeltasLoop_closed:
  "closed s \<Longrightarrow>
     getDeltasLoop to script retry from allDeltas s =
       Some (Resolved [],
             emitDelayInfo DELTASTORAGE (- 1) (sendTelemetryEvent ''GetDeltasClosedConnection'' s))"
  by (cases script) auto

lemma getDeltasIteration_fatal:
  "r = ConnectToStorageFails e \<or> r = GetFails e \<and> \<not> canRetryOnError e \<Longrightarrow>
     getDeltasIteration to r retry from allDeltas s =
       (case closeOnConnectionError e
               (sendTelemetryEvent ''GetDeltas_Error'' (s\<lparr>deltaStorageP := True\<rparr>)) of
          (Some f, s2) \<Rightarrow> Raise f s2
        | (None, s2) \<Rightarrow> Return [] s2)"
  by (auto simp add: getDeltasIteration_def catchBlock_def Let_def)

text \<open>An iteration that goes on neither closes the manager nor opens it.\<close>

lemma getDeltasIteration_Continue:
  "getDeltasIteration to r retry from allDeltas s = Continue retry' from' allDeltas' delay s' \<Longrightarrow>
     closed s' = closed s"
  by (auto simp add: getDeltasIteration_def catchBlock_def sleepStep_def Let_def
      split: fetch_result.splits if_splits prod.splits option.splits)

text \<open>An iteration raises only from \<open>closeOnConnectionError\<close> in the \<open>catch\<close> block.\<close>

lemma getDeltasIteration_Raise:
  "getDeltasIteration to r retry from allDeltas s = Raise f s' \<Longrightarrow>
     \<exists>e. f = UnhandledError e \<and> truthy_error e \<and> errorListeners s = 0 \<and> errorListeners s' = 0 \<and>
         closed s' = closed s \<and>
         (r = ConnectToStorageFails e \<or> r = GetFails e \<and> \<not> canRetryOnError e)"
  by (auto simp add: getDeltasIteration_def catchBlock_def sleepStep_def Let_def
      split: fetch_result.splits if_splits prod.splits option.splits
      dest!: closeOnConnectionError_Some)

text \<open>\<open>getDeltas\<close> rejects only with an error that \<open>closeOnConnectionError\<close> could not
  emit, after a fetch of the script failed for good.\<close>

lemma getDeltasLoop_Rejected:
  "getDeltasLoop to script retry from allDeltas s = Some (Rejected f, s') \<Longrightarrow>
     \<exists>e m c. f = UnhandledError e \<and> truthy_error e \<and> errorListeners s' = 0 \<and>
       ((m, ConnectToStorageFails e, c) \<in> set script \<or>
        (m, GetFails e, c) \<in> set script \<and> \<not> canRetryOnError e)"
proof (induction script arbitrary: retry "from" allDeltas s)
  case Nil
  then show ?case
    by (simp split: if_splits)
next
  case (Cons x script)
  obtain m r c where x: "x = (m, r, c)"
    by (cases x)
  from Cons.prems x have open_s: "\<not> closed s"
    by (auto split: if_splits)
  let ?sm = "if m then close s else s"
  show ?case
  proof (cases "getDeltasIteration to r retry from allDeltas ?sm")
    case (Return res s1)
    with Cons.prems x open_s show ?thesis
      by simp
  next
    case (Raise f1 s1)
    with Cons.prems x open_s have eq: "f1 = f" "s1 = s'"
      by simp_all
    from getDeltasIteration_Raise [OF Raise] eq x show ?thesis
      by auto
  next
    case (Continue retry1 from1 all1 delay1 s1)
    with Cons.prems x open_s
    have "getDeltasLoop to script retry1 from1 all1 (if c then close s1 else s1) =
        Some (Rejected f, s')"
      by simp
    from Cons.IH [OF this] x show ?thesis
      by auto
  qed
qed

text \<open>Whenever \<open>close\<close> is called during some iteration of the script, be it during the
  fetch or during the sleep, \<open>getDeltas\<close> returns.\<close>

lemma getDeltasLoop_returns_when_closed_later:
  "(m, r, c) \<in> set script \<Longrightarrow> m \<or> c \<Longrightarrow>
     getDeltasLoop to script retry from allDeltas s \<noteq> None"
proof (induction script arbitrary: retry "from" allDeltas s)
  case Nil
  then show ?case by simp
next
  case (Cons x script)
  obtain m1 r1 c1 where x: "x = (m1, r1, c1)"
    by (cases x)
  let ?sm = "if m1 then close s else s"
  show ?case
  proof (cases "closed s")
    case True
    then show ?thesis
      by (simp add: getDeltasLoop_closed)
  next
    case False
    show ?thesis
    proof (cases "getDeltasIteration to r1 retry from allDeltas ?sm")
      case (Return res s1)
      with False x show ?thesis by simp
    next
      case (Raise f1 s1)
      with False x show ?thesis by simp
    next
      case (Continue retry1 from1 all1 delay1 s1)
      from getDeltasIteration_Continue [OF Continue] have cl: "closed s1 = closed ?sm" .
      show ?thesis
      proof (cases "m1 \<or> c1")
        case True
        then have "closed (if c1 then close s1 else s1)"
          using cl by (auto simp add: closed_close)
        with \<open>\<not> closed s\<close> x Continue show ?thesis
          by (simp add: getDeltasLoop_closed)
      next
        case False
        with Cons.prems x have "(m, r, c) \<in> set script"
          by auto
        from Cons.IH [OF this Cons.prems(2)] \<open>\<not> closed s\<close> x Continue show ?thesis
          by simp
      qed
    qed
  qed
qed

definition fatal_error :: error_value where
  "fatal_error = ErrObject \<lparr>canRetry = Some False, retryAfterSeconds = None, e_message = ''403''\<rparr>"

text \<open>
  Claim C10 fails on the code as stated: \<open>getDeltas\<close> can reject. On a manager on
  which nobody has registered a listener for \<open>error\<close> (a new one, for instance), a
  fetch that fails with an error that \<open>canRetryOnError\<close> refuses reaches
  \<open>closeOnConnectionError\<close> in the \<open>catch\<close> block, whose \<open>emit("error", error)\<close> raises
  before \<open>close\<close> is called: the promise is rejected with that error and the manager is
  not closed.
\<close>

theorem getDeltas_rejects_counterexample:
  "getDeltas 0 (Some 5) [(False, GetFails fatal_error, False)] browser_manager =
     Some (Rejected (UnhandledError fatal_error),
           sendTelemetryEvent ''GetDeltas_Error'' (browser_manager\<lparr>deltaStorageP := True\<rparr>)) \<and>
   \<not> closed (sendTelemetryEvent ''GetDeltas_Error'' (browser_manager\<lparr>deltaStorageP := True\<rparr>))"
  by (simp add: getDeltas_def getDeltasIteration_def catchBlock_def closeOnConnectionError_def
      emit_error_def fatal_error_def sendTelemetryEvent_def Let_def example_defs)

text \<open>
  Claim C10, amended. The value of \<open>getDeltasLoop\<close> tells how the promise of
  \<open>getDeltas\<close> settles. It resolves with the empty array when the manager is closed at
  the loop test, be it at entry or at a later iteration, that is after \<open>close\<close> was
  called during the fetch or the sleep of an iteration that goes on. When connecting to
  the storage fails, or \<open>get\<close> fails with an error that \<open>canRetryOnError\<close> refuses, there
  are two cases. If the error is falsy, or a listener for \<open>error\<close> is registered and
  \<open>close\<close> was not called during the fetch (which removes the listeners), then
  \<open>closeOnConnectionError\<close> closes the manager and the promise resolves with the empty
  array. Otherwise the promise is rejected with the error, and the manager is closed
  only if \<open>close\<close> was called during the fetch. The promise is rejected in no other
  case (the logger, the listeners and the sleep are taken to return). Whenever \<open>close\<close>
  is called during an iteration of the script, the promise settles.
\<close>

theorem getDeltas_empty_array_or_unhandled_error:
  "(closed s \<longrightarrow>
      getDeltas fromInitial to script s =
        Some (Resolved [],
              emitDelayInfo DELTASTORAGE (- 1) (sendTelemetryEvent ''GetDeltasClosedConnection'' s)) \<and>
      getDeltasLoop to script retry start allDeltas s =
        Some (Resolved [],
              emitDelayInfo DELTASTORAGE (- 1) (sendTelemetryEvent ''GetDeltasClosedConnection'' s))) \<and>
   (\<not> closed s \<and> (meanwhile \<or> closing) \<and>
    getDeltasIteration to r retry start allDeltas (if meanwhile then close s else s) =
      Continue retry' nextFrom allDeltas' delay s' \<longrightarrow>
      getDeltasLoop to ((meanwhile, r, closing) # script) retry start allDeltas s =
        Some (Resolved [],
              emitDelayInfo DELTASTORAGE (- 1)
                (sendTelemetryEvent ''GetDeltasClosedConnection'' (if closing then close s' else s')))) \<and>
   (\<not> closed s \<and> (r = ConnectToStorageFails e \<or> r = GetFails e \<and> \<not> canRetryOnError e) \<and>
    (\<not> truthy_error e \<or> \<not> meanwhile \<and> 0 < errorListeners s) \<longrightarrow>
      getDeltasLoop to ((meanwhile, r, closing) # script) retry start allDeltas s =
        Some (Resolved [],
              snd (closeOnConnectionError e
                     (sendTelemetryEvent ''GetDeltas_Error''
                        ((if meanwhile then close s else s)\<lparr>deltaStorageP := True\<rparr>)))) \<and>
      closed (snd (closeOnConnectionError e
                     (sendTelemetryEvent ''GetDeltas_Error''
                        ((if meanwhile then close s else s)\<lparr>deltaStorageP := True\<rparr>))))) \<and>
   (\<not> closed s \<and> (r = ConnectToStorageFails e \<or> r = GetFails e \<and> \<not> canRetryOnError e) \<and>
    truthy_error e \<and> (meanwhile \<or> errorListeners s = 0) \<longrightarrow>
      getDeltasLoop to ((meanwhile, r, closing) # script) retry start allDeltas s =
        Some (Rejected (UnhandledError e),
              snd (closeOnConnectionError e
                     (sendTelemetryEvent ''GetDeltas_Error''
                        ((if meanwhile then close s else s)\<lparr>deltaStorageP := True\<rparr>)))) \<and>
      closed (snd (closeOnConnectionError e
                     (sendTelemetryEvent ''GetDeltas_Error''
                        ((if meanwhile then close s else s)\<lparr>deltaStorageP := True\<rparr>)))) = meanwhile) \<and>
   (getDeltasLoop to script retry start allDeltas s = Some (Rejected f, s'') \<longrightarrow>
      (\<exists>e' m c. f = UnhandledError e' \<and> truthy_error e' \<and> errorListeners s'' = 0 \<and>
         ((m, ConnectToStorageFails e', c) \<in> set script \<or>
          (m, GetFails e', c) \<in> set script \<and> \<not> canRetryOnError e'))) \<and>
   ((meanwhile, r, closing) \<in> set script \<and> (meanwhile \<or> closing) \<longrightarrow>
      getDeltas fromInitial to script s \<noteq> None)"
proof -
  define sm where "sm = (if meanwhile then close s else s)"
  define sf where "sf = sendTelemetryEvent ''GetDeltas_Error'' (sm\<lparr>deltaStorageP := True\<rparr>)"
  have listeners: "errorListeners sf = (if meanwhile then 0 else errorListeners s)"
    by (simp add: sf_def sm_def errorListeners_close)
  have closed_sf: "\<not> closed s \<Longrightarrow> closed sf = meanwhile"
    by (simp add: sf_def sm_def closed_close)
  have entry: "closed s \<longrightarrow>
      getDeltas fromInitial to script s =
        Some (Resolved [],
              emitDelayInfo DELTASTORAGE (- 1) (sendTelemetryEvent ''GetDeltasClosedConnection'' s)) \<and>
      getDeltasLoop to script retry start allDeltas s =
        Some (Resolved [],
              emitDelayInfo DELTASTORAGE (- 1) (sendTelemetryEvent ''GetDeltasClosedConnection'' s))"
    by (simp add: getDeltas_def getDeltasLoop_closed)
  have later: "\<not> closed s \<and> (meanwhile \<or> closing) \<and>
      getDeltasIteration to r retry start allDeltas sm =
        Continue retry' nextFrom allDeltas' delay s' \<longrightarrow>
      getDeltasLoop to ((meanwhile, r, closing) # script) retry start allDeltas s =
        Some (Resolved [],
              emitDelayInfo DELTASTORAGE (- 1)
                (sendTelemetryEvent ''GetDeltasClosedConnection'' (if closing then close s' else s')))"
  proof (intro impI)
    assume a: "\<not> closed s \<and> (meanwhile \<or> closing) \<and>
      getDeltasIteration to r retry start allDeltas sm =
        Continue retry' nextFrom allDeltas' delay s'"
    then have it: "getDeltasIteration to r retry start allDeltas sm =
        Continue retry' nextFrom allDeltas' delay s'"
      by simp
    from getDeltasIteration_Continue [OF it] a
    have "closed (if closing then close s' else s')"
      by (auto simp add: sm_def closed_close)
    from getDeltasLoop_closed [OF this] a show "getDeltasLoop to ((meanwhile, r, closing) # script) retry start allDeltas s =
        Some (Resolved [],
              emitDelayInfo DELTASTORAGE (- 1)
                (sendTelemetryEvent ''GetDeltasClosedConnection'' (if closing then close s' else s')))"
      by (simp add: sm_def)
  qed
  have resolves: "\<not> closed s \<and> (r = ConnectToStorageFails e \<or> r = GetFails e \<and> \<not> canRetryOnError e) \<and>
      (\<not> truthy_error e \<or> \<not> meanwhile \<and> 0 < errorListeners s) \<longrightarrow>
      getDeltasLoop to ((meanwhile, r, closing) # script) retry start allDeltas s =
        Some (Resolved [], snd (closeOnConnectionError e sf)) \<and>
      closed (snd (closeOnConnectionError e sf))"
  proof (intro impI)
    assume a: "\<not> closed s \<and> (r = ConnectToStorageFails e \<or> r = GetFails e \<and> \<not> canRetryOnError e) \<and>
      (\<not> truthy_error e \<or> \<not> meanwhile \<and> 0 < errorListeners s)"
    then have fatal: "r = ConnectToStorageFails e \<or> r = GetFails e \<and> \<not> canRetryOnError e"
      by simp
    from a listeners have "\<not> truthy_error e \<or> 0 < errorListeners sf"
      by auto
    from closeOnConnectionError_closes [OF this]
    have c: "fst (closeOnConnectionError e sf) = None" "closed (snd (closeOnConnectionError e sf))"
      by simp_all
    from getDeltasIteration_fatal [OF fatal, of to retry start allDeltas sm] c(1)
    have "getDeltasIteration to r retry start allDeltas sm =
        Return [] (snd (closeOnConnectionError e sf))"
      by (simp add: sf_def split: prod.splits option.splits)
    with a c(2) show "getDeltasLoop to ((meanwhile, r, closing) # script) retry start allDeltas s =
        Some (Resolved [], snd (closeOnConnectionError e sf)) \<and>
      closed (snd (closeOnConnectionError e sf))"
      by (simp add: sm_def)
  qed
  have rejects: "\<not> closed s \<and> (r = ConnectToStorageFails e \<or> r = GetFails e \<and> \<not> canRetryOnError e) \<and>
      truthy_error e \<and> (meanwhile \<or> errorListeners s = 0) \<longrightarrow>
      getDeltasLoop to ((meanwhile, r, closing) # script) retry start allDeltas s =
        Some (Rejected (UnhandledError e), snd (closeOnConnectionError e sf)) \<and>
      closed (snd (closeOnConnectionError e sf)) = meanwhile"
  proof (intro impI)
    assume a: "\<not> closed s \<and> (r = ConnectToStorageFails e \<or> r = GetFails e \<and> \<not> canRetryOnError e) \<and>
      truthy_error e \<and> (meanwhile \<or> errorListeners s = 0)"
    then have fatal: "r = ConnectToStorageFails e \<or> r = GetFails e \<and> \<not> canRetryOnError e"
      by simp
    from a listeners have "truthy_error e \<and> errorListeners sf = 0"
      by auto
    from closeOnConnectionError_raises [OF this] closed_sf a
    have c: "fst (closeOnConnectionError e sf) = Some (UnhandledError e)"
      "closed (snd (closeOnConnectionError e sf)) = meanwhile"
      by simp_all
    from getDeltasIteration_fatal [OF fatal, of to retry start allDeltas sm] c(1)
    have "getDeltasIteration to r retry start allDeltas sm =
        Raise (UnhandledError e) (snd (closeOnConnectionError e sf))"
      by (simp add: sf_def split: prod.splits option.splits)
    with a c(2) show "getDeltasLoop to ((meanwhile, r, closing) # script) retry start allDeltas s =
        Some (Rejected (UnhandledError e), snd (closeOnConnectionError e sf)) \<and>
      closed (snd (closeOnConnectionError e sf)) = meanwhile"
      by (simp add: sm_def)
  qed
  have only: "getDeltasLoop to script retry start allDeltas s = Some (Rejected f, s'') \<longrightarrow>
      (\<exists>e' m c. f = UnhandledError e' \<and> truthy_error e' \<and> errorListeners s'' = 0 \<and>
         ((m, ConnectToStorageFails e', c) \<in> set script \<or>
          (m, GetFails e', c) \<in> set script \<and> \<not> canRetryOnError e'))"
    using getDeltasLoop_Rejected by blast
  have settles: "(meanwhile, r, closing) \<in> set script \<and> (meanwhile \<or> closing) \<longrightarrow>
      getDeltas fromInitial to script s \<noteq> None"
    using getDeltasLoop_returns_when_closed_later [of meanwhile r closing script]
    by (simp add: getDeltas_def)
  show ?thesis
    using entry later resolves rejects only settles unfolding sf_def sm_def
    by (intro conjI) blast+
qed

text \<open>A closed manager; \<open>close\<close> during the sleep and during the fetch of the first
  iteration; a failed fetch on a new manager, which rejects, and on a manager with a
  listener for \<open>error\<close>, which closes it; a failed connection to the storage, with a
  falsy error.\<close>

theorem getDeltas_empty_array_or_unhandled_error_witness:
  "closed (close browser_manager) \<and>
   map_option fst (getDeltas 0 (Some 5) [(False, GetReturns [msg 1], False)] (close browser_manager)) =
     Some (Resolved []) \<and>
   \<not> closed browser_manager \<and>
   map_option fst (getDeltasLoop (Some 5)
                     [(False, GetReturns [msg 1], True), (False, GetReturns [msg 2], False)]
                     0 0 [] browser_manager) = Some (Resolved []) \<and>
   map_option fst (getDeltasLoop (Some 5)
                     [(True, GetReturns [msg 1], False), (False, GetReturns [msg 2], False)]
                     0 0 [] browser_manager) = Some (Resolved []) \<and>
   \<not> canRetryOnError fatal_error \<and> truthy_error fatal_error \<and>
   errorListeners browser_manager = 0 \<and>
   map_option fst (getDeltasLoop (Some 5) [(False, GetFails fatal_error, False)] 0 0 []
                     browser_manager) = Some (Rejected (UnhandledError fatal_error)) \<and>
   0 < errorListeners (addErrorListener browser_manager) \<and>
   map_option fst (getDeltasLoop (Some 5) [(False, GetFails fatal_error, False)] 0 0 []
                     (addErrorListener browser_manager)) = Some (Resolved []) \<and>
   map_option fst (getDeltasLoop (Some 5) [(True, GetFails fatal_error, False)] 0 0 []
                     (addErrorListener browser_manager)) = Some (Rejected (UnhandledError fatal_error)) \<and>
   \<not> truthy_error ErrNull \<and>
   map_option fst (getDeltasLoop (Some 5) [(False, ConnectToStorageFails ErrNull, False)] 0 0 []
                     browser_manager) = Some (Resolved []) \<and>
   getDeltas 0 (Some 5) [(False, GetReturns [msg 1], True)] browser_manager \<noteq> None"
proof -
  have c: "closed (close browser_manager)"
    by (rule closed_close)
  have o: "\<not> closed browser_manager" "\<not> closed (addErrorListener browser_manager)"
    by (simp_all add: example_defs addErrorListener_def)
  have l: "errorListeners browser_manager = 0" "0 < errorListeners (addErrorListener browser_manager)"
    by (simp_all add: example_defs addErrorListener_def)
  have f: "\<not> canRetryOnError fatal_error" "truthy_error fatal_error" "\<not> truthy_error ErrNull"
    by (simp_all add: fatal_error_def)
  have it: "getDeltasIteration (Some 5) (GetReturns [msg 1]) 0 0 [] browser_manager =
      Continue 0 1 [msg 1] 0 (emitDelayInfo DELTASTORAGE 0 (browser_manager\<lparr>deltaStorageP := True\<rparr>))"
    by (simp add: getDeltasIteration_GetReturns finished_def sleepStep_def nextRetry_def
        fetchDelay_def msg_def)
  have itc: "getDeltasIteration (Some 5) (GetReturns [msg 1]) 0 0 [] (close browser_manager) =
      Continue 0 1 [msg 1] 0
        (emitDelayInfo DELTASTORAGE 0 ((close browser_manager)\<lparr>deltaStorageP := True\<rparr>))"
    by (simp add: getDeltasIteration_GetReturns finished_def sleepStep_def nextRetry_def
        fetchDelay_def msg_def)
  show ?thesis
    using c o l f
      getDeltas_empty_array_or_unhandled_error [where s = "close browser_manager"
        and fromInitial = 0 and to = "Some 5" and script = "[(False, GetReturns [msg 1], False)]"]
      getDeltas_empty_array_or_unhandled_error [where s = browser_manager and to = "Some 5"
        and script = "[(False, GetReturns [msg 2], False)]" and retry = 0 and start = 0
        and allDeltas = "[]" and r = "GetReturns [msg 1]" and retry' = 0 and nextFrom = 1
        and allDeltas' = "[msg 1]" and delay = 0 and meanwhile = False and closing = True
        and s' = "emitDelayInfo DELTASTORAGE 0 (browser_manager\<lparr>deltaStorageP := True\<rparr>)"]
      getDeltas_empty_array_or_unhandled_error [where s = browser_manager and to = "Some 5"
        and script = "[(False, GetReturns [msg 2], False)]" and retry = 0 and start = 0
        and allDeltas = "[]" and r = "GetReturns [msg 1]" and retry' = 0 and nextFrom = 1
        and allDeltas' = "[msg 1]" and delay = 0 and meanwhile = True and closing = False
        and s' = "emitDelayInfo DELTASTORAGE 0 ((close browser_manager)\<lparr>deltaStorageP := True\<rparr>)"]
      getDeltas_empty_array_or_unhandled_error [where s = browser_manager and to = "Some 5"
        and script = "[]" and retry = 0 and start = 0 and allDeltas = "[]"
        and r = "GetFails fatal_error" and e = fatal_error and meanwhile = False and closing = False]
      getDeltas_empty_array_or_unhandled_error [where s = "addErrorListener browser_manager"
        and to = "Some 5" and script = "[]" and retry = 0 and start = 0 and allDeltas = "[]"
        and r = "GetFails fatal_error" and e = fatal_error and meanwhile = False and closing = False]
      getDeltas_empty_array_or_unhandled_error [where s = "addErrorListener browser_manager"
        and to = "Some 5" and script = "[]" and retry = 0 and start = 0 and allDeltas = "[]"
        and r = "GetFails fatal_error" and e = fatal_error and meanwhile = True and closing = False]
      getDeltas_empty_array_or_unhandled_error [where s = browser_manager and to = "Some 5"
        and script = "[]" and retry = 0 and start = 0 and allDeltas = "[]"
        and r = "ConnectToStorageFails ErrNull" and e = ErrNull and meanwhile = False
        and closing = False]
      getDeltas_empty_array_or_unhandled_error [where s = browser_manager and fromInitial = 0
        and to = "Some 5" and script = "[(False, GetReturns [msg 1], True)]"
        and r = "GetReturns [msg 1]" and meanwhile = False and closing = True]
    by (simp add: it itc)
qed

section \<open>Claims C4 and C9: reconnecting and connecting\<close>

definition conn0 :: delta_connection where
  "conn0 = \<lparr>connId = 0,
             details = \<lparr>cd_clientId = ''client'', cd_mode = Some Write,
                         initialMessages = [], initialSignals = []\<rparr>\<rparr>"

text \<open>A manager of the given client type after \<open>connect\<close> and the success of the
  connection attempt; and the same with a listener for \<open>error\<close> registered on it.\<close>

definition connected_manager :: "string \<Rightarrow> dm_state" where
  "connected_manager ctype =
     connectCore_connected conn0 (snd (connect ''load'' (new_DeltaManager ctype (Some Write) True)))"

definition listened_manager :: "string \<Rightarrow> dm_state" where
  "listened_manager ctype = addErrorListener (connected_manager ctype)"

lemma connected_manager_eq:
  "connected_manager ctype =
     (new_DeltaManager ctype (Some Write) True)
       \<lparr>connection := Some conn0, outbound := \<lparr>q_items = [], q_paused = False\<rparr>,
        deltaStreamDelay := Some (- 1),
        emitted := [EvConnect (details conn0)], nextDeferred := 1,
        connectCalls := [(''load'', 1000, Write)], connectsSettled := 1,
        resolvedDeferreds := [(0, details conn0)]\<rparr>"
  by (simp add: connected_manager_def connect_def connectCore_def connectCore_connected_def
      new_DeltaManager_def conn0_def emitDelayInfo_def truthy_number_def emit_def
      q_systemResume_def InitialReconnectDelay_def Let_def)

lemma reconnectOnError_current:
  assumes "connection s = Some c" and "connId conn = connId c"
  shows "reconnectOnError reason conn mode error s =
     (let s4 = s\<lparr>connection := None, connectionMode := Read,
                  outbound := (outbound s)\<lparr>q_paused := True, q_items := []\<rparr>,
                  emitted := emitted s @ [EvDisconnect reason],
                  closedConnections := closedConnections s @ [connId conn]\<rparr>
      in if clientType s \<noteq> Browser \<or> \<not> reconnect s \<or> closed s \<or> \<not> canRetryOnError error
         then closeOnConnectionError error s4
         else (None, connectCore reason InitialReconnectDelay mode
                       (sendTelemetryEvent ''DeltaConnectionReconnect'' s4)))"
  using assms
  by (simp add: reconnectOnError_def Let_def emit_def q_clear_def q_systemPause_def
      sendTelemetryEvent_def)

lemma close_fields:
  "connection (close s) = None"
  "connectionMode (close s) = connectionMode s"
  "q_items (outbound (close s)) = []"
  "q_paused (outbound (close s)) = q_paused (outbound s)"
  "emitted (close s) = emitted s"
  "connectCalls (close s) = connectCalls s"
  "set (closedConnections s) \<subseteq> set (closedConnections (close s))"
  by (auto simp add: close_def stopSequenceNumberUpdate_def clearTimeout_def Let_def q_clear_def
      split: option.split)

text \<open>The two ways \<open>closeOnConnectionError\<close> ends: with the manager closed, after the
  error (if any) went to a listener; or raising, with only the pending promise of
  \<open>connect\<close> rejected.\<close>

lemma closeOnConnectionError_closes_fields:
  assumes "\<not> truthy_error e \<or> 0 < errorListeners s"
  shows "fst (closeOnConnectionError e s) = None"
    "closed (snd (closeOnConnectionError e s))"
    "connection (snd (closeOnConnectionError e s)) = None"
    "connectionMode (snd (closeOnConnectionError e s)) = connectionMode s"
    "q_items (outbound (snd (closeOnConnectionError e s))) = []"
    "q_paused (outbound (snd (closeOnConnectionError e s))) = q_paused (outbound s)"
    "emitted (snd (closeOnConnectionError e s)) =
       emitted s @ (if truthy_error e then [EvError e] else [])"
    "connectCalls (snd (closeOnConnectionError e s)) = connectCalls s"
    "set (closedConnections s) \<subseteq> set (closedConnections (snd (closeOnConnectionError e s)))"
proof -
  let ?s2 = "(if truthy_error e then emit (EvError e) else id)
      (case connecting s of
         Some d \<Rightarrow> s\<lparr>rejectedDeferreds := rejectedDeferreds s @ [(d, e)], connecting := None\<rparr>
       | None \<Rightarrow> s)"
  from assms have eq: "closeOnConnectionError e s = (None, close ?s2)"
    by (auto simp add: closeOnConnectionError_def emit_error_def Let_def split: option.split)
  have s2: "connectionMode ?s2 = connectionMode s" "outbound ?s2 = outbound s"
    "emitted ?s2 = emitted s @ (if truthy_error e then [EvError e] else [])"
    "connectCalls ?s2 = connectCalls s" "closedConnections ?s2 = closedConnections s"
    by (simp_all add: emit_def split: option.split)
  show "fst (closeOnConnectionError e s) = None"
    "closed (snd (closeOnConnectionError e s))"
    unfolding eq by (simp_all add: closed_close)
  show "connection (snd (closeOnConnectionError e s)) = None"
    "connectionMode (snd (closeOnConnectionError e s)) = connectionMode s"
    "q_items (outbound (snd (closeOnConnectionError e s))) = []"
    "q_paused (outbound (snd (closeOnConnectionError e s))) = q_paused (outbound s)"
    "emitted (snd (closeOnConnectionError e s)) =
       emitted s @ (if truthy_error e then [EvError e] else [])"
    "connectCalls (snd (closeOnConnectionError e s)) = connectCalls s"
    unfolding eq snd_conv close_fields s2 by (rule refl)+
  show "set (closedConnections s) \<subseteq> set (closedConnections (snd (closeOnConnectionError e s)))"
    using close_fields(7) [of ?s2] unfolding eq snd_conv s2 .
qed

lemma closeOnConnectionError_raises_fields:
  assumes "truthy_error e \<and> errorListeners s = 0"
  shows "fst (closeOnConnectionError e s) = Some (UnhandledError e)"
    "closed (snd (closeOnConnectionError e s)) = closed s"
    "connection (snd (closeOnConnectionError e s)) = connection s"
    "connectionMode (snd (closeOnConnectionError e s)) = connectionMode s"
    "outbound (snd (closeOnConnectionError e s)) = outbound s"
    "emitted (snd (closeOnConnectionError e s)) = emitted s"
    "connectCalls (snd (closeOnConnectionError e s)) = connectCalls s"
    "closedConnections (snd (closeOnConnectionError e s)) = closedConnections s"
  using assms
  by (auto simp add: closeOnConnectionError_def emit_error_def Let_def split: option.split)

text \<open>
  Claim C4, as amended. When the manager's current connection emits \<open>disconnect\<close> or
  \<open>error\<close>, the listener runs \<open>reconnectOnError\<close> with the system connection mode. The
  manager clears the connection reference, sets \<open>connectionMode\<close> to read, pauses and
  clears the outbound queue, emits \<open>disconnect(reason)\<close> and closes the connection. It
  then starts a connection attempt with the initial delay and that mode exactly when
  the client type is \<open>Browser\<close>, reconnect is enabled, the manager is not closed and
  \<open>canRetryOnError(error)\<close> holds. Otherwise it calls \<open>closeOnConnectionError\<close> and
  starts no attempt: if there is no error, or a listener for \<open>error\<close> is registered on
  the manager, the error (if any) is emitted and the manager is closed; if there is an
  error and no such listener, emitting it raises and the manager is left as it was,
  open or closed.
\<close>

theorem reconnectOnError_disconnects_then_reconnects_or_closes:
  assumes "connection s = Some c" and "connId conn = connId c"
    and "raised = fst (reconnectOnError reason conn mode error s)"
    and "s' = snd (reconnectOnError reason conn mode error s)"
  shows
    "on_disconnect conn disconnectReason s =
       reconnectOnError (''Reconnecting on disconnect: '' @ disconnectReason) conn
         (systemConnectionMode s) ErrUndefined s \<and>
     on_error conn error s =
       reconnectOnError ''Reconnecting on error'' conn (systemConnectionMode s) error
         (sendTelemetryEvent ''DeltaConnectionError'' s) \<and>
     connection s' = None \<and> connectionMode s' = Read \<and>
     q_paused (outbound s') \<and> q_items (outbound s') = [] \<and>
     connId conn \<in> set (closedConnections s') \<and>
     (clientType s = Browser \<and> reconnect s \<and> \<not> closed s \<and> canRetryOnError error \<longrightarrow>
        raised = None \<and> \<not> closed s' \<and>
        emitted s' = emitted s @ [EvDisconnect reason] \<and>
        connectCalls s' = connectCalls s @ [(reason, InitialReconnectDelay, mode)]) \<and>
     (\<not> (clientType s = Browser \<and> reconnect s \<and> \<not> closed s \<and> canRetryOnError error) \<and>
      (\<not> truthy_error error \<or> 0 < errorListeners s) \<longrightarrow>
        raised = None \<and> closed s' \<and>
        emitted s' = emitted s @ [EvDisconnect reason] @ (if truthy_error error then [EvError error] else []) \<and>
        connectCalls s' = connectCalls s) \<and>
     (\<not> (clientType s = Browser \<and> reconnect s \<and> \<not> closed s \<and> canRetryOnError error) \<and>
      truthy_error error \<and> errorListeners s = 0 \<longrightarrow>
        raised = Some (UnhandledError error) \<and> closed s' = closed s \<and>
        emitted s' = emitted s @ [EvDisconnect reason] \<and>
        connectCalls s' = connectCalls s)"
proof -
  let ?s4 = "s\<lparr>connection := None, connectionMode := Read,
      outbound := (outbound s)\<lparr>q_paused := True, q_items := []\<rparr>,
      emitted := emitted s @ [EvDisconnect reason],
      closedConnections := closedConnections s @ [connId conn]\<rparr>"
  have main: "connection s' = None \<and> connectionMode s' = Read \<and>
     q_paused (outbound s') \<and> q_items (outbound s') = [] \<and>
     connId conn \<in> set (closedConnections s') \<and>
     (clientType s = Browser \<and> reconnect s \<and> \<not> closed s \<and> canRetryOnError error \<longrightarrow>
        raised = None \<and> \<not> closed s' \<and>
        emitted s' = emitted s @ [EvDisconnect reason] \<and>
        connectCalls s' = connectCalls s @ [(reason, InitialReconnectDelay, mode)]) \<and>
     (\<not> (clientType s = Browser \<and> reconnect s \<and> \<not> closed s \<and> canRetryOnError error) \<and>
      (\<not> truthy_error error \<or> 0 < errorListeners s) \<longrightarrow>
        raised = None \<and> closed s' \<and>
        emitted s' = emitted s @ [EvDisconnect reason] @ (if truthy_error error then [EvError error] else []) \<and>
        connectCalls s' = connectCalls s) \<and>
     (\<not> (clientType s = Browser \<and> reconnect s \<and> \<not> closed s \<and> canRetryOnError error) \<and>
      truthy_error error \<and> errorListeners s = 0 \<longrightarrow>
        raised = Some (UnhandledError error) \<and> closed s' = closed s \<and>
        emitted s' = emitted s @ [EvDisconnect reason] \<and>
        connectCalls s' = connectCalls s)"
  proof (cases "clientType s = Browser \<and> reconnect s \<and> \<not> closed s \<and> canRetryOnError error")
    case True
    then show ?thesis
      unfolding assms(3,4) reconnectOnError_current [OF assms(1,2)]
      by (simp add: connectCore_def sendTelemetryEvent_def Let_def)
  next
    case False
    then have eq: "reconnectOnError reason conn mode error s = closeOnConnectionError error ?s4"
      unfolding reconnectOnError_current [OF assms(1,2)]
      by (auto simp add: Let_def)
    show ?thesis
    proof (cases "truthy_error error \<and> errorListeners s = 0")
      case True
      then have "truthy_error error \<and> errorListeners ?s4 = 0"
        by simp
      from closeOnConnectionError_raises_fields [OF this] False True show ?thesis
        unfolding assms(3,4) eq by simp
    next
      case noraise: False
      then have c: "\<not> truthy_error error \<or> 0 < errorListeners ?s4"
        by auto
      have "connId conn \<in> set (closedConnections ?s4)"
        by simp
      with closeOnConnectionError_closes_fields(9) [OF c]
      have "connId conn \<in> set (closedConnections s')"
        unfolding assms(4) eq by blast
      with closeOnConnectionError_closes_fields(1-8) [OF c] False noraise show ?thesis
        unfolding assms(3,4) eq by simp
    qed
  qed
  have listeners: "on_disconnect conn disconnectReason s =
       reconnectOnError (''Reconnecting on disconnect: '' @ disconnectReason) conn
         (systemConnectionMode s) ErrUndefined s"
    "on_error conn error s =
       reconnectOnError ''Reconnecting on error'' conn (systemConnectionMode s) error
         (sendTelemetryEvent ''DeltaConnectionError'' s)"
    by (simp_all only: on_disconnect_def on_error_def)
  from listeners main show ?thesis
    by (intro conjI) blast+
qed

text \<open>A browser client: a disconnect starts a new attempt; an error that cannot be
  retried closes the manager when a listener for \<open>error\<close> is registered, and raises,
  leaving the manager open, when none is.\<close>

theorem reconnectOnError_disconnects_then_reconnects_or_closes_witness:
  "connection (connected_manager Browser) = Some conn0 \<and>
   clientType (connected_manager Browser) = Browser \<and>
   reconnect (connected_manager Browser) \<and>
   \<not> closed (connected_manager Browser) \<and>
   canRetryOnError ErrUndefined \<and>
   fst (on_disconnect conn0 ''gone'' (connected_manager Browser)) = None \<and>
   connection (snd (on_disconnect conn0 ''gone'' (connected_manager Browser))) = None \<and>
   connectionMode (snd (on_disconnect conn0 ''gone'' (connected_manager Browser))) = Read \<and>
   \<not> closed (snd (on_disconnect conn0 ''gone'' (connected_manager Browser))) \<and>
   connectCalls (snd (on_disconnect conn0 ''gone'' (connected_manager Browser))) =
     [(''load'', 1000, Write), (''Reconnecting on disconnect: gone'', 1000, Write)] \<and>
   \<not> canRetryOnError fatal_error \<and> truthy_error fatal_error \<and>
   0 < errorListeners (listened_manager Browser) \<and>
   fst (on_error conn0 fatal_error (listened_manager Browser)) = None \<and>
   closed (snd (on_error conn0 fatal_error (listened_manager Browser))) \<and>
   emitted (snd (on_error conn0 fatal_error (listened_manager Browser))) =
     [EvConnect (details conn0), EvDisconnect ''Reconnecting on error'', EvError fatal_error] \<and>
   connectCalls (snd (on_error conn0 fatal_error (listened_manager Browser))) =
     [(''load'', 1000, Write)] \<and>
   errorListeners (connected_manager Browser) = 0 \<and>
   fst (on_error conn0 fatal_error (connected_manager Browser)) =
     Some (UnhandledError fatal_error) \<and>
   \<not> closed (snd (on_error conn0 fatal_error (connected_manager Browser))) \<and>
   connection (snd (on_error conn0 fatal_error (connected_manager Browser))) = None \<and>
   emitted (snd (on_error conn0 fatal_error (connected_manager Browser))) =
     [EvConnect (details conn0), EvDisconnect ''Reconnecting on error''] \<and>
   connectCalls (snd (on_error conn0 fatal_error (connected_manager Browser))) =
     [(''load'', 1000, Write)]"
proof -
  let ?s = "connected_manager Browser"
  let ?t = "sendTelemetryEvent ''DeltaConnectionError'' ?s"
  let ?l = "listened_manager Browser"
  let ?u = "sendTelemetryEvent ''DeltaConnectionError'' ?l"
  have c: "connection ?s = Some conn0" and c': "connection ?t = Some conn0"
    and cl: "connection ?l = Some conn0" and cl': "connection ?u = Some conn0"
    by (simp_all add: listened_manager_def addErrorListener_def connected_manager_eq
        sendTelemetryEvent_def)
  have facts: "clientType ?s = Browser" "reconnect ?s" "\<not> closed ?s"
    "systemConnectionMode ?s = Write" "emitted ?s = [EvConnect (details conn0)]"
    "connectCalls ?s = [(''load'', 1000, Write)]" "errorListeners ?s = 0"
    "clientType ?t = Browser" "reconnect ?t" "\<not> closed ?t"
    "systemConnectionMode ?t = Write" "emitted ?t = [EvConnect (details conn0)]"
    "connectCalls ?t = [(''load'', 1000, Write)]" "errorListeners ?t = 0"
    by (simp_all add: connected_manager_eq new_DeltaManager_def sendTelemetryEvent_def)
  have factsl: "clientType ?l = Browser" "reconnect ?l" "\<not> closed ?l"
    "systemConnectionMode ?l = Write" "emitted ?l = [EvConnect (details conn0)]"
    "connectCalls ?l = [(''load'', 1000, Write)]" "errorListeners ?l = 1"
    "clientType ?u = Browser" "reconnect ?u" "\<not> closed ?u"
    "systemConnectionMode ?u = Write" "emitted ?u = [EvConnect (details conn0)]"
    "connectCalls ?u = [(''load'', 1000, Write)]" "errorListeners ?u = 1"
    by (simp_all add: listened_manager_def addErrorListener_def connected_manager_eq
        new_DeltaManager_def sendTelemetryEvent_def)
  have f: "\<not> canRetryOnError fatal_error" "truthy_error fatal_error"
    by (simp_all add: fatal_error_def)
  show ?thesis
    using reconnectOnError_disconnects_then_reconnects_or_closes [OF c refl refl refl,
        where reason = "''Reconnecting on disconnect: gone''" and mode = Write
          and error = ErrUndefined and disconnectReason = "''gone''"]
      reconnectOnError_disconnects_then_reconnects_or_closes [OF cl' refl refl refl,
        where reason = "''Reconnecting on error''" and mode = Write
          and error = fatal_error and disconnectReason = "''gone''"]
      reconnectOnError_disconnects_then_reconnects_or_closes [OF cl refl refl refl,
        where reason = "''Reconnecting on error''" and mode = Write
          and error = fatal_error and disconnectReason = "''gone''"]
      reconnectOnError_disconnects_then_reconnects_or_closes [OF c' refl refl refl,
        where reason = "''Reconnecting on error''" and mode = Write
          and error = fatal_error and disconnectReason = "''gone''"]
      reconnectOnError_disconnects_then_reconnects_or_closes [OF c refl refl refl,
        where reason = "''Reconnecting on error''" and mode = Write
          and error = fatal_error and disconnectReason = "''gone''"]
    by (simp add: c cl facts factsl f InitialReconnectDelay_def)
qed

text \<open>
  The claim as stated lets every client reconnect. A client whose type is not
  \<open>Browser\<close>, with reconnect enabled, open, and a disconnect without an error: the
  manager is closed and no connection attempt is started.
\<close>

theorem reconnectOnError_non_browser_counterexample:
  "connection (connected_manager ''node'') = Some conn0 \<and>
   reconnect (connected_manager ''node'') \<and>
   \<not> closed (connected_manager ''node'') \<and>
   canRetryOnError ErrUndefined \<and>
   fst (on_disconnect conn0 ''gone'' (connected_manager ''node'')) = None \<and>
   closed (snd (on_disconnect conn0 ''gone'' (connected_manager ''node''))) \<and>
   connectCalls (snd (on_disconnect conn0 ''gone'' (connected_manager ''node''))) =
     connectCalls (connected_manager ''node'')"
proof -
  let ?s = "connected_manager ''node''"
  have s: "connection ?s = Some conn0" "reconnect ?s" "\<not> closed ?s" "clientType ?s = ''node''"
    by (simp_all add: connected_manager_eq new_DeltaManager_def)
  have e: "canRetryOnError ErrUndefined" "\<not> truthy_error ErrUndefined"
    by simp_all
  let ?s4 = "?s\<lparr>connection := None, connectionMode := Read,
      outbound := (outbound ?s)\<lparr>q_paused := True, q_items := []\<rparr>,
      emitted := emitted ?s @ [EvDisconnect ''Reconnecting on disconnect: gone''],
      closedConnections := closedConnections ?s @ [connId conn0]\<rparr>"
  have eq: "on_disconnect conn0 ''gone'' ?s = closeOnConnectionError ErrUndefined ?s4"
    unfolding on_disconnect_def reconnectOnError_current [OF s(1) refl]
    by (simp add: s Browser_def Let_def)
  have "\<not> truthy_error ErrUndefined \<or> 0 < errorListeners ?s4"
    by (simp add: e)
  from closeOnConnectionError_closes_fields(1,2,8) [OF this] s e show ?thesis
    unfolding eq by simp
qed

text \<open>
  Claim C9, as amended. \<open>connect\<close> after \<open>close\<close> violates the assertion. While the
  promise of an earlier \<open>connect\<close> is pending, a further call follows that same promise
  and changes nothing. With a live connection the call resolves at once with that
  connection's details and changes nothing, so the service is not contacted. With
  neither, the call creates the promise and starts one connection attempt with the
  initial delay and the current connection mode.
\<close>

theorem connect_cases:
  "(closed s \<longrightarrow> connect reason s = (Inl AssertionError, s)) \<and>
   (\<not> closed s \<and> connecting s = Some d \<and> connection s = None \<longrightarrow>
      connect reason s = (Inr (PendingPromise d), s)) \<and>
   (\<not> closed s \<and> connecting s = None \<and> connection s = Some c \<longrightarrow>
      connect reason s = (Inr (ResolvedWith (details c)), s)) \<and>
   (\<not> closed s \<and> connecting s = None \<and> connection s = None \<longrightarrow>
      connect reason s =
        (Inr (PendingPromise (nextDeferred s)),
         s\<lparr>connecting := Some (nextDeferred s), nextDeferred := nextDeferred s + 1,
           connectRepeatCount := connectRepeatCount s + 1,
           connectCalls := connectCalls s @ [(reason, InitialReconnectDelay, connectionMode s)]\<rparr>))"
  by (simp add: connect_def connectCore_def Let_def)

theorem connect_cases_witness:
  "closed (close browser_manager) \<and>
   connect ''late'' (close browser_manager) = (Inl AssertionError, close browser_manager) \<and>
   fst (connect ''load'' browser_manager) = Inr (PendingPromise 0) \<and>
   connectCalls (snd (connect ''load'' browser_manager)) = [(''load'', 1000, Write)] \<and>
   connect ''again'' (snd (connect ''load'' browser_manager)) =
     (Inr (PendingPromise 0), snd (connect ''load'' browser_manager)) \<and>
   connect ''again'' (connected_manager Browser) =
     (Inr (ResolvedWith (details conn0)), connected_manager Browser)"
proof -
  let ?s1 = "browser_manager\<lparr>connecting := Some 0, nextDeferred := 1, connectRepeatCount := 1,
      connectCalls := [(''load'', 1000, Write)]\<rparr>"
  have first: "connect ''load'' browser_manager = (Inr (PendingPromise 0), ?s1)"
    using connect_cases [of browser_manager "''load''"]
    by (simp add: example_defs InitialReconnectDelay_def)
  have second: "connect ''again'' ?s1 = (Inr (PendingPromise 0), ?s1)"
    using connect_cases [of ?s1 "''again''" 0]
    by (simp add: example_defs)
  have third: "connect ''again'' (connected_manager Browser) =
      (Inr (ResolvedWith (details conn0)), connected_manager Browser)"
    using connect_cases [of "connected_manager Browser" "''again''" _ conn0]
    by (simp add: connected_manager_eq new_DeltaManager_def)
  show ?thesis
    using connect_cases [of "close browser_manager" "''late''"] first second third
    by (simp add: closed_close)
qed

text \<open>
  The claim as stated says that \<open>connect\<close> never starts a second concurrent attempt.
  After a disconnect the reconnect path has an attempt in flight, but no promise of
  \<open>connect\<close> is pending and there is no connection: \<open>connect\<close> starts a second attempt
  while the first is in flight.
\<close>

theorem connect_during_reconnect_counterexample:
  "attemptsInFlight (connected_manager Browser) = 0 \<and>
   fst (on_disconnect conn0 ''gone'' (connected_manager Browser)) = None \<and>
   attemptsInFlight (snd (on_disconnect conn0 ''gone'' (connected_manager Browser))) = 1 \<and>
   \<not> closed (snd (on_disconnect conn0 ''gone'' (connected_manager Browser))) \<and>
   fst (connect ''again'' (snd (on_disconnect conn0 ''gone'' (connected_manager Browser)))) =
     Inr (PendingPromise 1) \<and>
   attemptsInFlight
     (snd (connect ''again'' (snd (on_disconnect conn0 ''gone'' (connected_manager Browser))))) = 2"
  by (simp add: connected_manager_eq new_DeltaManager_def on_disconnect_def reconnectOnError_def
      conn0_def Browser_def Let_def connect_def connectCore_def attemptsInFlight_def
      sendTelemetryEvent_def emit_def)

section \<open>Claim C5: the acknowledgement scheduler\<close>

text \<open>The continuation of \<open>fetchMissingDeltas\<close>, run when \<open>getDeltas\<close> has resolved;
  nothing is run when it is rejected.\<close>

definition fetchMissingDeltas_done :: "string \<Rightarrow> sequenced_message list \<Rightarrow> dm_state \<Rightarrow> dm_state" where
  "fetchMissingDeltas_done telemetryEventSuffix messages s =
     catchUp telemetryEventSuffix messages (emit EvCaughtUp (s\<lparr>fetching := False\<rparr>))"

text \<open>
  The states a manager can be in: those of a new manager, and those that the embedded
  methods, listeners and continuations lead to, in any order and with any arguments,
  whether they return or raise.
\<close>

inductive reachable :: "dm_state \<Rightarrow> bool" where
  r_new: "reachable (new_DeltaManager ctype client_mode reconn)"
| r_attachOpHandler:
    "reachable s \<Longrightarrow> attachOpHandler minSeq seq resume s = Inr s' \<Longrightarrow> reachable s'"
| r_updateQuorumJoin: "reachable s \<Longrightarrow> reachable (updateQuorumJoin s)"
| r_updateQuorumLeave: "reachable s \<Longrightarrow> reachable (updateQuorumLeave s)"
| r_connect: "reachable s \<Longrightarrow> reachable (snd (connect reason s))"
| r_connected: "reachable s \<Longrightarrow> reachable (connectCore_connected conn s)"
| r_connect_failed:
    "reachable s \<Longrightarrow> reachable (snd (connectCore_failed reason delay mode error s))"
| r_nack: "reachable s \<Longrightarrow> reachable (snd (on_nack conn target s))"
| r_disconnect: "reachable s \<Longrightarrow> reachable (snd (on_disconnect conn disconnectReason s))"
| r_error: "reachable s \<Longrightarrow> reachable (snd (on_error conn error s))"
| r_op: "reachable s \<Longrightarrow> reachable (enqueueMessages messages s)"
| r_fetched:
    "reachable s \<Longrightarrow> getDeltas fromInitial to script s = Some (Resolved messages, s') \<Longrightarrow>
       reachable (fetchMissingDeltas_done suffix messages s')"
| r_fetch_rejected:
    "reachable s \<Longrightarrow> getDeltas fromInitial to script s = Some (Rejected f, s') \<Longrightarrow>
       reachable s'"
| r_flush: "reachable s \<Longrightarrow> reachable (flush s)"
| r_submit: "reachable s \<Longrightarrow> reachable (snd (submit type contents batch metadata s))"
| r_processed: "reachable s \<Longrightarrow> reachable (scheduleSequenceNumberUpdate message immediateNoOp s)"
| r_timer: "reachable s \<Longrightarrow> fireTimer t s = Some s' \<Longrightarrow> reachable s'"
| r_close: "reachable s \<Longrightarrow> reachable (close s)"
| r_addErrorListener: "reachable s \<Longrightarrow> reachable (addErrorListener s)"

text \<open>The armed timers are exactly the one the field refers to, if any.\<close>

definition ack_timers_ok :: "dm_state \<Rightarrow> bool" where
  "ack_timers_ok s =
     (timers s = (case updateSequenceNumberTimer s of None \<Rightarrow> [] | Some t \<Rightarrow> [t]))"

text \<open>The part of the state the scheduler owns.\<close>

definition ack_part :: "dm_state \<Rightarrow> timeout list \<times> timeout option" where
  "ack_part s = (timers s, updateSequenceNumberTimer s)"

definition ack_ok :: "timeout list \<times> timeout option \<Rightarrow> bool" where
  "ack_ok p = (fst p = (case snd p of None \<Rightarrow> [] | Some t \<Rightarrow> [t]))"

lemma ack_timers_ok_iff: "ack_timers_ok s = ack_ok (ack_part s)"
  by (simp add: ack_part_def ack_timers_ok_def ack_ok_def)

lemma ack_part_update [simp]:
  "ack_part (clientType_update f0 s) = ack_part s"
  "ack_part (reconnect_update f1 s) = ack_part s"
  "ack_part (systemConnectionMode_update f2 s) = ack_part s"
  "ack_part (connectionMode_update f3 s) = ack_part s"
  "ack_part (pending_update f4 s) = ack_part s"
  "ack_part (fetching_update f5 s) = ack_part s"
  "ack_part (inQuorum_update f6 s) = ack_part s"
  "ack_part (minSequenceNumber_update f7 s) = ack_part s"
  "ack_part (lastQueuedSequenceNumber_update f8 s) = ack_part s"
  "ack_part (baseSequenceNumber_update f9 s) = ack_part s"
  "ack_part (initSequenceNumber_update f10 s) = ack_part s"
  "ack_part (inbound_update f11 s) = ack_part s"
  "ack_part (inboundSignal_update f12 s) = ack_part s"
  "ack_part (outbound_update f13 s) = ack_part s"
  "ack_part (connecting_update f14 s) = ack_part s"
  "ack_part (connection_update f15 s) = ack_part s"
  "ack_part (clientSequenceNumber_update f16 s) = ack_part s"
  "ack_part (closed_update f17 s) = ack_part s"
  "ack_part (handler_update f18 s) = ack_part s"
  "ack_part (deltaStorageP_update f19 s) = ack_part s"
  "ack_part (messageBuffer_update f20 s) = ack_part s"
  "ack_part (duplicateMsgCount_update f21 s) = ack_part s"
  "ack_part (connectRepeatCount_update f22 s) = ack_part s"
  "ack_part (deltaStorageDelay_update f23 s) = ack_part s"
  "ack_part (deltaStreamDelay_update f24 s) = ack_part s"
  "ack_part (emitted_update f25 s) = ack_part s"
  "ack_part (errorListeners_update f26 s) = ack_part s"
  "ack_part (telemetry_update f27 s) = ack_part s"
  "ack_part (nextTimer_update f28 s) = ack_part s"
  "ack_part (nextDeferred_update f29 s) = ack_part s"
  "ack_part (connectCalls_update f30 s) = ack_part s"
  "ack_part (connectsSettled_update f31 s) = ack_part s"
  "ack_part (getDeltasCalls_update f32 s) = ack_part s"
  "ack_part (closedConnections_update f33 s) = ack_part s"
  "ack_part (rejectedDeferreds_update f34 s) = ack_part s"
  "ack_part (resolvedDeferreds_update f35 s) = ack_part s"
  by (simp_all add: ack_part_def)

lemma ack_part_simple [simp]:
  "ack_part (emit ev s) = ack_part s"
  "ack_part (sendTelemetryEvent n s) = ack_part s"
  "ack_part (flush s) = ack_part s"
  "ack_part (emitDelayInfo ep d s) = ack_part s"
  "ack_part (connectCore reason delay mode s) = ack_part s"
  "ack_part (fetchMissingDeltas suffix from to s) = ack_part s"
  "ack_part (updateQuorumJoin s) = ack_part s"
  "ack_part (updateQuorumLeave s) = ack_part s"
  "ack_part (addErrorListener s) = ack_part s"
  by (simp_all add: ack_part_def emit_def sendTelemetryEvent_def flush_def emitDelayInfo_def
      connectCore_def fetchMissingDeltas_def updateQuorumJoin_def updateQuorumLeave_def
      addErrorListener_def Let_def split: retryFor.split)

lemma ack_part_enqueueMessage [simp]: "ack_part (enqueueMessage m s) = ack_part s"
proof -
  have "ack_part (handleOutOfOrderMessage m s) = ack_part s"
    by (simp add: handleOutOfOrderMessage_def)
  then show ?thesis
    by (simp add: enqueueMessage_def)
qed

lemma ack_part_enqueueLoop [simp]: "ack_part (enqueueLoop ms s) = ack_part s"
  by (induction ms arbitrary: s) simp_all

lemma ack_part_enqueueMessages [simp]: "ack_part (enqueueMessages ms s) = ack_part s"
  by (simp add: enqueueMessages_def)

lemma ack_part_catchUp [simp]: "ack_part (catchUp suffix ms s) = ack_part s"
  by (simp add: catchUp_def Let_def)

lemma ack_timers_ok_stop: "ack_timers_ok s \<Longrightarrow> ack_part (stopSequenceNumberUpdate s) = ([], None)"
  by (simp add: ack_timers_ok_def ack_part_def stopSequenceNumberUpdate_def clearTimeout_def
      Let_def split: option.splits)

lemma ack_timers_ok_empty: "ack_part s = ([], None) \<Longrightarrow> ack_timers_ok s"
  by (simp add: ack_part_def ack_timers_ok_def)

lemma ack_part_submit:
  assumes "ack_timers_ok s"
  shows "ack_part (snd (submit type contents batch metadata s)) = ([], None)"
proof -
  let ?s1 = "s\<lparr>clientSequenceNumber := clientSequenceNumber s + 1\<rparr>"
  have "ack_timers_ok ?s1"
    using assms by (simp add: ack_timers_ok_def)
  then have stop: "ack_part (stopSequenceNumberUpdate ?s1) = ([], None)"
    by (rule ack_timers_ok_stop)
  show ?thesis
    by (simp add: submit_def Let_def split_def stop)
qed

lemma ack_part_close:
  assumes "ack_timers_ok s"
  shows "ack_part (close s) = ([], None)"
proof -
  have "ack_timers_ok (s\<lparr>closed := True\<rparr>)"
    using assms by (simp add: ack_timers_ok_def)
  then have "ack_part (stopSequenceNumberUpdate (s\<lparr>closed := True\<rparr>)) = ([], None)"
    by (rule ack_timers_ok_stop)
  then show ?thesis
    by (simp add: close_def Let_def ack_part_def split: option.split)
qed

lemma ack_timers_ok_close: "ack_timers_ok s \<Longrightarrow> ack_timers_ok (close s)"
  using ack_part_close by (blast intro: ack_timers_ok_empty)

lemma ack_timers_ok_closeOnConnectionError:
  assumes "ack_timers_ok s"
  shows "ack_timers_ok (snd (closeOnConnectionError e s))"
proof -
  define s1 where "s1 = (case connecting s of
      Some d \<Rightarrow> s\<lparr>rejectedDeferreds := rejectedDeferreds s @ [(d, e)], connecting := None\<rparr>
    | None \<Rightarrow> s)"
  define s2 where "s2 = (if truthy_error e then emit (EvError e) s1 else s1)"
  have eq: "snd (closeOnConnectionError e s) =
      (if truthy_error e \<and> errorListeners s1 = 0 then s1 else close s2)"
    by (simp add: closeOnConnectionError_def emit_error_def Let_def s1_def s2_def)
  have p1: "ack_part s1 = ack_part s"
    by (simp add: s1_def split: option.split)
  then have "ack_part s2 = ack_part s"
    by (simp add: s2_def)
  with assms p1 have "ack_timers_ok s1" "ack_timers_ok s2"
    by (simp_all add: ack_timers_ok_iff)
  then show ?thesis
    unfolding eq by (simp add: ack_timers_ok_close)
qed

lemma ack_timers_ok_reconnectOnError:
  assumes "ack_timers_ok s"
  shows "ack_timers_ok (snd (reconnectOnError reason conn mode error s))"
proof -
  define s4 where "s4 = (emit (EvDisconnect reason)
      (s\<lparr>connection := None, connectionMode := Read,
         outbound := q_clear (q_systemPause (outbound s))\<rparr>))
      \<lparr>closedConnections := closedConnections s @ [connId conn]\<rparr>"
  have "ack_part s4 = ack_part s"
    by (simp add: s4_def)
  with assms have ok4: "ack_timers_ok s4"
    by (simp add: ack_timers_ok_iff)
  have a: "ack_timers_ok (snd (closeOnConnectionError error s4))"
    using ok4 by (rule ack_timers_ok_closeOnConnectionError)
  have b: "ack_timers_ok (connectCore reason InitialReconnectDelay mode
      (sendTelemetryEvent ''DeltaConnectionReconnect'' s4))"
    using ok4 by (simp add: ack_timers_ok_iff)
  show ?thesis
  proof (cases "map_option connId (connection s) \<noteq> Some (connId conn)")
    case True
    with assms show ?thesis
      by (simp add: reconnectOnError_def)
  next
    case False
    have "snd (reconnectOnError reason conn mode error s) = snd (closeOnConnectionError error s4) \<or>
        snd (reconnectOnError reason conn mode error s) =
          connectCore reason InitialReconnectDelay mode
            (sendTelemetryEvent ''DeltaConnectionReconnect'' s4)"
      using False
      by (simp add: reconnectOnError_def Let_def s4_def emit_def del: map_option_eq_Some)
    with a b show ?thesis
      by auto
  qed
qed

lemma ack_timers_ok_connectCore_connected:
  assumes "ack_timers_ok s"
  shows "ack_timers_ok (connectCore_connected conn s)"
proof -
  have "ack_part (connectCore_connected conn s) = ack_part s"
    by (simp add: connectCore_connected_def Let_def split: option.split)
  with assms show ?thesis
    by (simp add: ack_timers_ok_iff)
qed

lemma ack_timers_ok_connectCore_failed:
  assumes "ack_timers_ok s"
  shows "ack_timers_ok (snd (connectCore_failed reason delay mode error s))"
proof -
  let ?s = "s\<lparr>connectsSettled := connectsSettled s + 1\<rparr>"
  have ok: "ack_timers_ok ?s"
    using assms by (simp add: ack_timers_ok_def)
  have a: "ack_timers_ok (snd (closeOnConnectionError error ?s))"
    using ok by (rule ack_timers_ok_closeOnConnectionError)
  have b: "ack_timers_ok (connectCore reason d mode (emitDelayInfo DELTASTREAM d s1))"
    if "ack_part s1 = ack_part s" for d s1
    using that assms by (simp add: ack_timers_ok_iff)
  have c: "ack_part (if connectRepeatCount ?s = 1
      then sendTelemetryEvent ''DeltaConnectionFailureToConnect'' ?s else ?s) = ack_part s"
    by simp
  show ?thesis
    unfolding connectCore_failed_def Let_def
    using a b [OF c] by simp
qed

lemma ack_timers_ok_schedule:
  assumes "ack_timers_ok s"
  shows "ack_timers_ok (scheduleSequenceNumberUpdate m imm s)"
proof -
  have stop: "ack_timers_ok (stopSequenceNumberUpdate s)"
    using ack_timers_ok_stop [OF assms] by (rule ack_timers_ok_empty)
  have "ack_timers_ok (snd (submit NoOp ImmediateNoOpResponse False None (stopSequenceNumberUpdate s)))"
    using ack_part_submit [OF stop] by (rule ack_timers_ok_empty)
  with assms stop show ?thesis
    by (auto simp add: scheduleSequenceNumberUpdate_def setTimeout_def ack_timers_ok_def)
qed

lemma ack_timers_ok_ackTimerCallback:
  assumes "ack_part s = ([], t)"
  shows "ack_timers_ok (ackTimerCallback s)"
proof -
  let ?s1 = "s\<lparr>updateSequenceNumberTimer := None\<rparr>"
  have ok: "ack_timers_ok ?s1"
    using assms by (simp add: ack_part_def ack_timers_ok_def)
  have "ack_timers_ok (snd (submit NoOp PNull False None ?s1))"
    using ack_part_submit [OF ok] by (rule ack_timers_ok_empty)
  with ok show ?thesis
    by (simp add: ackTimerCallback_def Let_def)
qed

lemma ack_timers_ok_fireTimer:
  assumes "ack_timers_ok s" and "fireTimer t s = Some s'"
  shows "ack_timers_ok s'"
proof -
  from assms(2) have t: "t \<in> set (timers s)"
    and s': "s' = ackTimerCallback (s\<lparr>timers := removeAll t (timers s)\<rparr>)"
    by (simp_all add: fireTimer_def split: if_splits)
  from assms(1) t have "timers s = [t]"
    by (auto simp add: ack_timers_ok_def split: option.splits)
  then have "ack_part (s\<lparr>timers := removeAll t (timers s)\<rparr>) = ([], updateSequenceNumberTimer s)"
    by (simp add: ack_part_def)
  then show ?thesis
    unfolding s' by (rule ack_timers_ok_ackTimerCallback)
qed

lemma ack_timers_ok_getDeltasIteration:
  assumes "ack_timers_ok s"
  shows "case getDeltasIteration to r retry from allDeltas s of
           Return res s' \<Rightarrow> ack_timers_ok s'
         | Raise f s' \<Rightarrow> ack_timers_ok s'
         | Continue retry' from' all' delay s' \<Rightarrow> ack_timers_ok s'"
proof -
  let ?s1 = "s\<lparr>deltaStorageP := True\<rparr>"
  have ok1: "ack_timers_ok ?s1"
    using assms by (simp add: ack_timers_ok_def)
  then have ok2: "ack_timers_ok (sendTelemetryEvent ''GetDeltas_Error'' ?s1)"
    by (simp add: ack_timers_ok_iff)
  have fatal: "case closeOnConnectionError e (sendTelemetryEvent ''GetDeltas_Error'' ?s1) of
      (Some f, s2) \<Rightarrow> ack_timers_ok s2 | (None, s2) \<Rightarrow> ack_timers_ok s2" for e
    using ack_timers_ok_closeOnConnectionError [OF ok2, of e]
    by (auto split: prod.split option.split)
  have delay: "ack_timers_ok (emitDelayInfo DELTASTORAGE d ?s1)"
    "ack_timers_ok (emitDelayInfo DELTASTORAGE d (sendTelemetryEvent ''GetDeltas_Error'' ?s1))" for d
    using ok1 ok2 by (simp_all add: ack_timers_ok_iff)
  show ?thesis
  proof (cases r)
    case (ConnectToStorageFails e)
    with fatal [of e] show ?thesis
      by (simp add: getDeltasIteration_def catchBlock_def Let_def split: prod.splits option.splits)
  next
    case (GetFails e)
    with fatal [of e] delay show ?thesis
      by (simp add: getDeltasIteration_def catchBlock_def sleepStep_def Let_def
          split: prod.splits option.splits)
  next
    case (GetReturns deltas)
    with delay show ?thesis
      by (simp add: getDeltasIteration_def sleepStep_def Let_def)
  qed
qed

lemma ack_timers_ok_getDeltasLoop:
  "ack_timers_ok s \<Longrightarrow> getDeltasLoop to script retry from allDeltas s = Some (res, s') \<Longrightarrow>
     ack_timers_ok s'"
proof (induction script arbitrary: retry "from" allDeltas s)
  case Nil
  then show ?case
    by (auto simp add: ack_timers_ok_iff split: if_splits)
next
  case (Cons x script)
  obtain m r c where x: "x = (m, r, c)"
    by (cases x)
  let ?sm = "if m then close s else s"
  show ?case
  proof (cases "closed s")
    case True
    with Cons.prems x show ?thesis
      by (auto simp add: ack_timers_ok_iff)
  next
    case False
    from Cons.prems(1) have okm: "ack_timers_ok ?sm"
      by (simp add: ack_timers_ok_close)
    note it = ack_timers_ok_getDeltasIteration [OF okm, of to r retry "from" allDeltas]
    show ?thesis
    proof (cases "getDeltasIteration to r retry from allDeltas ?sm")
      case (Return res' s1)
      with False x Cons.prems(2) it show ?thesis
        by simp
    next
      case (Raise f1 s1)
      with False x Cons.prems(2) it show ?thesis
        by simp
    next
      case (Continue retry' from' all' delay s1)
      with it have ok: "ack_timers_ok s1"
        by simp
      then have ok': "ack_timers_ok (if c then close s1 else s1)"
        by (simp add: ack_timers_ok_close)
      from Cons.prems(2) False x Continue
      have "getDeltasLoop to script retry' from' all' (if c then close s1 else s1) = Some (res, s')"
        by simp
      from Cons.IH [OF ok' this] show ?thesis .
    qed
  qed
qed

lemma ack_timers_ok_attachOpHandler:
  assumes "ack_timers_ok s" and "attachOpHandler minSeq seq resume s = Inr s'"
  shows "ack_timers_ok s'"
proof -
  have "ack_part s' = ack_part s"
    using assms(2)
    by (auto simp add: attachOpHandler_def Let_def split: if_splits)
  with assms(1) show ?thesis
    by (simp add: ack_timers_ok_iff)
qed

lemma reachable_ack_timers_ok: "reachable s \<Longrightarrow> ack_timers_ok s"
proof (induction rule: reachable.induct)
  case (r_new ctype client_mode reconn)
  show ?case
    by (simp add: ack_timers_ok_def new_DeltaManager_def)
next
  case (r_attachOpHandler s minSeq seq resume s')
  then show ?case
    by (blast intro: ack_timers_ok_attachOpHandler)
next
  case (r_connect s reason)
  have "ack_part (snd (connect reason s)) = ack_part s"
    by (simp add: connect_def Let_def split: option.split)
  with r_connect.IH show ?case
    by (simp add: ack_timers_ok_iff)
next
  case (r_fetched s fromInitial to script messages s' suffix)
  then have "ack_timers_ok s'"
    by (auto simp add: getDeltas_def dest: ack_timers_ok_getDeltasLoop)
  moreover have "ack_part (fetchMissingDeltas_done suffix messages s') = ack_part s'"
    by (simp add: fetchMissingDeltas_done_def)
  ultimately show ?case
    by (simp add: ack_timers_ok_iff)
next
  case (r_fetch_rejected s fromInitial to script f s')
  then show ?case
    by (auto simp add: getDeltas_def dest: ack_timers_ok_getDeltasLoop)
next
  case (r_submit s type contents batch metadata)
  then show ?case
    by (blast intro: ack_timers_ok_empty ack_part_submit)
next
  case (r_close s)
  then show ?case
    by (blast intro: ack_timers_ok_empty ack_part_close)
next
  case (r_timer s t s')
  then show ?case
    by (blast intro: ack_timers_ok_fireTimer)
next
  case (r_connected s conn)
  from r_connected.IH show ?case
    by (rule ack_timers_ok_connectCore_connected)
next
  case (r_connect_failed s reason delay mode error)
  from r_connect_failed.IH show ?case
    by (rule ack_timers_ok_connectCore_failed)
next
  case (r_nack s conn target)
  from r_nack.IH show ?case
    unfolding on_nack_def by (rule ack_timers_ok_reconnectOnError)
next
  case (r_disconnect s conn disconnectReason)
  from r_disconnect.IH show ?case
    unfolding on_disconnect_def by (rule ack_timers_ok_reconnectOnError)
next
  case (r_error s conn error)
  from r_error.IH have "ack_timers_ok (sendTelemetryEvent ''DeltaConnectionError'' s)"
    by (simp add: ack_timers_ok_iff)
  then show ?case
    unfolding on_error_def by (rule ack_timers_ok_reconnectOnError)
next
  case (r_processed s message immediateNoOp)
  from r_processed.IH show ?case
    by (rule ack_timers_ok_schedule)
qed (simp_all add: ack_timers_ok_iff)

lemma active_update [simp]:
  "active (s\<lparr>timers := ts\<rparr>) = active s"
  "active (s\<lparr>updateSequenceNumberTimer := f\<rparr>) = active s"
  "active (s\<lparr>nextTimer := n\<rparr>) = active s"
  by (simp_all add: active_def)

lemma schedule_inactive:
  "\<not> active s \<Longrightarrow> scheduleSequenceNumberUpdate m imm s = stopSequenceNumberUpdate s"
  by (simp add: scheduleSequenceNumberUpdate_def)

lemma stop_keeps_outside:
  "emitted (stopSequenceNumberUpdate s) = emitted s"
  "outbound (stopSequenceNumberUpdate s) = outbound s"
  "clientSequenceNumber (stopSequenceNumberUpdate s) = clientSequenceNumber s"
  by (simp_all add: stopSequenceNumberUpdate_def clearTimeout_def Let_def split: option.split)

lemma schedule_arms:
  "active s \<Longrightarrow> m_type m \<noteq> NoOp \<Longrightarrow> updateSequenceNumberTimer s = None \<Longrightarrow>
     scheduleSequenceNumberUpdate m False s =
       s\<lparr>timers := timers s @ [Timeout (nextTimer s) 100], nextTimer := nextTimer s + 1,
         updateSequenceNumberTimer := Some (Timeout (nextTimer s) 100)\<rparr>"
  by (simp add: scheduleSequenceNumberUpdate_def setTimeout_def)

lemma schedule_already_armed:
  "active s \<Longrightarrow> updateSequenceNumberTimer s \<noteq> None \<Longrightarrow>
     scheduleSequenceNumberUpdate m False s = s"
  by (auto simp add: scheduleSequenceNumberUpdate_def)

lemma fireTimer_eq:
  "fireTimer t s = Some s' \<Longrightarrow>
     t \<in> set (timers s) \<and>
     s' = (if active s
           then snd (submit NoOp PNull False None
                  (s\<lparr>timers := removeAll t (timers s), updateSequenceNumberTimer := None\<rparr>))
           else s\<lparr>timers := removeAll t (timers s), updateSequenceNumberTimer := None\<rparr>)"
  by (auto simp add: fireTimer_def ackTimerCallback_def Let_def split: if_splits)

text \<open>What \<open>submit(MessageType.NoOp, null)\<close> sends: the message buffered so far, if any,
  and then a batch of its own with the no-op, whose contents are null and whose data is
  the serialised null.\<close>

lemma submit_NoOp_null:
  "clientSequenceNumber (snd (submit NoOp PNull False None s)) = clientSequenceNumber s + 1 \<and>
   q_items (outbound (snd (submit NoOp PNull False None s))) =
     q_items (outbound s) @ (if messageBuffer s = [] then [] else [messageBuffer s]) @
       [[\<lparr>d_clientSequenceNumber = clientSequenceNumber s + 1, d_contents = None,
           d_data = Some (JSON_stringify PNull), d_metadata = None,
           referenceSequenceNumber = baseSequenceNumber s, d_type = NoOp\<rparr>]]"
  by (simp add: submit_def createOutboundMessage_def stopSequenceNumberUpdate_def clearTimeout_def
      flush_def emit_def q_push_def Let_def split: option.split)

text \<open>
  Claim C5. In every reachable state at most one acknowledgement timer is armed. While
  the client is not active, neither the scheduler nor a firing timer submits anything,
  and the scheduler leaves no timer armed. Every \<open>submit\<close> leaves no timer armed. For
  an active client and a processed message that is not a no-op, the scheduler arms one
  timer of 100 ms when none is armed and changes nothing when one is. An armed timer can fire;
  when it fires on an active client, \<open>submit(NoOp, null)\<close> sends the no-op with
  contents null, and on a client that is not active nothing is sent.
\<close>

theorem ack_discipline:
  assumes "reachable s"
  shows "length (timers s) \<le> 1 \<and>
    (\<not> active s \<longrightarrow>
       emitted (scheduleSequenceNumberUpdate m imm s) = emitted s \<and>
       outbound (scheduleSequenceNumberUpdate m imm s) = outbound s \<and>
       timers (scheduleSequenceNumberUpdate m imm s) = []) \<and>
    (\<not> active s \<and> fireTimer t s = Some s' \<longrightarrow>
       emitted s' = emitted s \<and> outbound s' = outbound s \<and> timers s' = []) \<and>
    timers (snd (submit type contents batch metadata s)) = [] \<and>
    updateSequenceNumberTimer (snd (submit type contents batch metadata s)) = None \<and>
    (active s \<and> m_type m \<noteq> NoOp \<and> timers s = [] \<longrightarrow>
       timers (scheduleSequenceNumberUpdate m False s) = [Timeout (nextTimer s) 100] \<and>
       emitted (scheduleSequenceNumberUpdate m False s) = emitted s) \<and>
    (active s \<and> timers s \<noteq> [] \<longrightarrow> scheduleSequenceNumberUpdate m False s = s) \<and>
    (t \<in> set (timers s) \<longrightarrow> fireTimer t s \<noteq> None) \<and>
    (active s \<and> fireTimer t s = Some s' \<longrightarrow>
       timers s' = [] \<and>
       clientSequenceNumber s' = clientSequenceNumber s + 1 \<and>
       q_items (outbound s') =
         q_items (outbound s) @ (if messageBuffer s = [] then [] else [messageBuffer s]) @
           [[\<lparr>d_clientSequenceNumber = clientSequenceNumber s + 1, d_contents = None,
               d_data = Some (JSON_stringify PNull), d_metadata = None,
               referenceSequenceNumber = baseSequenceNumber s, d_type = NoOp\<rparr>]])"
proof -
  from assms have ok: "ack_timers_ok s"
    by (rule reachable_ack_timers_ok)
  have one: "length (timers s) \<le> 1"
    using ok by (simp add: ack_timers_ok_def split: option.split)
  have none: "timers s = [] \<longleftrightarrow> updateSequenceNumberTimer s = None"
    using ok by (simp add: ack_timers_ok_def split: option.split)
  have stop: "timers (stopSequenceNumberUpdate s) = []"
    using ack_timers_ok_stop [OF ok] by (simp add: ack_part_def)
  have inactive: "emitted (scheduleSequenceNumberUpdate m imm s) = emitted s \<and>
       outbound (scheduleSequenceNumberUpdate m imm s) = outbound s \<and>
       timers (scheduleSequenceNumberUpdate m imm s) = []" if "\<not> active s"
    using that stop by (simp add: schedule_inactive stop_keeps_outside)
  have removed: "removeAll t (timers s) = []" if "t \<in> set (timers s)"
    using that ok by (auto simp add: ack_timers_ok_def split: option.splits)
  have fired_inactive: "emitted s' = emitted s \<and> outbound s' = outbound s \<and> timers s' = []"
    if "\<not> active s \<and> fireTimer t s = Some s'"
    using that fireTimer_eq [of t s s'] removed by auto
  have sub: "timers (snd (submit type contents batch metadata s)) = [] \<and>
      updateSequenceNumberTimer (snd (submit type contents batch metadata s)) = None"
    using ack_part_submit [OF ok, of type contents batch metadata] by (simp add: ack_part_def)
  have arm: "timers (scheduleSequenceNumberUpdate m False s) = [Timeout (nextTimer s) 100] \<and>
       emitted (scheduleSequenceNumberUpdate m False s) = emitted s"
    if "active s \<and> m_type m \<noteq> NoOp \<and> timers s = []"
    using that none by (simp add: schedule_arms)
  have armed: "scheduleSequenceNumberUpdate m False s = s" if "active s \<and> timers s \<noteq> []"
    using that none by (simp add: schedule_already_armed)
  have can_fire: "fireTimer t s \<noteq> None" if "t \<in> set (timers s)"
    using that by (simp add: fireTimer_def)
  have fired_active: "timers s' = [] \<and>
       clientSequenceNumber s' = clientSequenceNumber s + 1 \<and>
       q_items (outbound s') =
         q_items (outbound s) @ (if messageBuffer s = [] then [] else [messageBuffer s]) @
           [[\<lparr>d_clientSequenceNumber = clientSequenceNumber s + 1, d_contents = None,
               d_data = Some (JSON_stringify PNull), d_metadata = None,
               referenceSequenceNumber = baseSequenceNumber s, d_type = NoOp\<rparr>]]"
    if "active s \<and> fireTimer t s = Some s'"
  proof -
    let ?s1 = "s\<lparr>timers := removeAll t (timers s), updateSequenceNumberTimer := None\<rparr>"
    from that fireTimer_eq [of t s s']
    have t: "t \<in> set (timers s)" and s': "s' = snd (submit NoOp PNull False None ?s1)"
      by simp_all
    have "ack_timers_ok ?s1"
      using removed [OF t] by (simp add: ack_timers_ok_def)
    from ack_part_submit [OF this, of NoOp PNull False None]
    have "timers s' = []"
      unfolding s' by (simp add: ack_part_def)
    with submit_NoOp_null [of ?s1] show ?thesis
      unfolding s' by simp
  qed
  from one inactive fired_inactive sub arm armed can_fire fired_active show ?thesis
    by blast
qed

text \<open>A browser client, connected in write mode and in the quorum, and the same client
  after message 1 has been processed.\<close>

definition active_manager :: dm_state where
  "active_manager = updateQuorumJoin (connected_manager Browser)"

definition armed_manager :: dm_state where
  "armed_manager = scheduleSequenceNumberUpdate (msg 1) False active_manager"

lemma reachable_examples:
  "reachable active_manager" "reachable armed_manager" "reachable (updateQuorumLeave armed_manager)"
proof -
  have "reachable (snd (connect ''load'' (new_DeltaManager Browser (Some Write) True)))"
    by (rule r_connect) (rule r_new)
  then have "reachable (connected_manager Browser)"
    unfolding connected_manager_def by (rule r_connected)
  then show a: "reachable active_manager"
    unfolding active_manager_def by (rule r_updateQuorumJoin)
  then show b: "reachable armed_manager"
    unfolding armed_manager_def by (rule r_processed)
  then show "reachable (updateQuorumLeave armed_manager)"
    by (rule r_updateQuorumLeave)
qed

lemma armed_manager_eq:
  "active_manager = (connected_manager Browser)\<lparr>inQuorum := True\<rparr>"
  "armed_manager =
     (connected_manager Browser)\<lparr>inQuorum := True, timers := [Timeout 0 100], nextTimer := 1,
       updateSequenceNumberTimer := Some (Timeout 0 100)\<rparr>"
  by (simp_all add: armed_manager_def active_manager_def updateQuorumJoin_def
      scheduleSequenceNumberUpdate_def setTimeout_def active_def msg_def connected_manager_eq
      new_DeltaManager_def)

text \<open>The state after the timer of \<open>armed_manager\<close> has fired.\<close>

definition fired_manager :: dm_state where
  "fired_manager =
     snd (submit NoOp PNull False None
            (armed_manager\<lparr>timers := [], updateSequenceNumberTimer := None\<rparr>))"

theorem ack_discipline_witness:
  "reachable armed_manager \<and> active active_manager \<and> active armed_manager \<and>
   timers active_manager = [] \<and>
   timers (scheduleSequenceNumberUpdate (msg 1) False active_manager) = [Timeout 0 100] \<and>
   length (timers armed_manager) \<le> 1 \<and>
   scheduleSequenceNumberUpdate (msg 2) False armed_manager = armed_manager \<and>
   timers (snd (submit Operation (PText ''x'') False None armed_manager)) = [] \<and>
   fireTimer (Timeout 0 100) armed_manager = Some fired_manager \<and>
   q_items (outbound fired_manager) =
     [[\<lparr>d_clientSequenceNumber = 1, d_contents = None, d_data = Some (JSON_stringify PNull),
         d_metadata = None, referenceSequenceNumber = 0, d_type = NoOp\<rparr>]] \<and>
   \<not> active (updateQuorumLeave armed_manager) \<and>
   fireTimer (Timeout 0 100) (updateQuorumLeave armed_manager) =
     Some ((updateQuorumLeave armed_manager)\<lparr>timers := [], updateSequenceNumberTimer := None\<rparr>) \<and>
   outbound ((updateQuorumLeave armed_manager)\<lparr>timers := [], updateSequenceNumberTimer := None\<rparr>) =
     outbound armed_manager"
proof -
  have act: "active active_manager" "active armed_manager" "\<not> active (updateQuorumLeave armed_manager)"
    by (simp_all add: armed_manager_eq active_def updateQuorumLeave_def connected_manager_eq
        new_DeltaManager_def)
  have fields: "timers active_manager = []" "timers armed_manager = [Timeout 0 100]"
    "nextTimer active_manager = 0" "m_type (msg 1) \<noteq> NoOp"
    "q_items (outbound armed_manager) = []" "messageBuffer armed_manager = []"
    "clientSequenceNumber armed_manager = 0" "baseSequenceNumber armed_manager = 0"
    "timers (updateQuorumLeave armed_manager) = [Timeout 0 100]"
    "outbound (updateQuorumLeave armed_manager) = outbound armed_manager"
    by (simp_all add: armed_manager_eq connected_manager_eq new_DeltaManager_def msg_def
        updateQuorumLeave_def)
  have fire1: "fireTimer (Timeout 0 100) armed_manager = Some fired_manager"
    using act(2) by (simp add: fireTimer_def ackTimerCallback_def fired_manager_def fields)
  have fire2: "fireTimer (Timeout 0 100) (updateQuorumLeave armed_manager) =
      Some ((updateQuorumLeave armed_manager)\<lparr>timers := [], updateSequenceNumberTimer := None\<rparr>)"
    using act(3) by (simp add: fireTimer_def ackTimerCallback_def fields)
  show ?thesis
    using reachable_examples act fields fire1 fire2
      ack_discipline [OF reachable_examples(1), where m = "msg 1"]
      ack_discipline [OF reachable_examples(2), where m = "msg 2" and t = "Timeout 0 100"
        and s' = fired_manager and type = Operation and contents = "PText ''x''"
        and batch = False and metadata = None]
      ack_discipline [OF reachable_examples(3), where t = "Timeout 0 100"
        and s' = "(updateQuorumLeave armed_manager)\<lparr>timers := [], updateSequenceNumberTimer := None\<rparr>"]
    by simp
qed

section \<open>Claims C6 and C7: validating the epoch and handling a mismatch\<close>

text \<open>A tracker that has learned epoch \<open>A\<close> and caches two entries, one of its file.\<close>

definition new_EpochTracker :: et_state where
  "new_EpochTracker =
     \<lparr> fluidEpoch = None, fileEntry = None, persistedCache = [], logged = [],
       removeEntriesCalls = [], requests = [] \<rparr>"

definition tracker_A :: et_state where
  "tracker_A =
     \<lparr> fluidEpoch = Some ''A'', fileEntry = Some ''doc'',
       persistedCache =
         [(\<lparr>ce_file = ''doc'', ce_type = ''snapshot'', ce_key = ''k''\<rparr>,
           \<lparr>cv_fluidEpoch = Some ''A'', cv_value = ''v''\<rparr>),
          (\<lparr>ce_file = ''other'', ce_type = ''snapshot'', ce_key = ''k''\<rparr>,
           \<lparr>cv_fluidEpoch = Some ''A'', cv_value = ''w''\<rparr>)],
       logged = [EpochLearnedFirstTime ''A'' treesLatest False],
       removeEntriesCalls = [], requests = [(treesLatest, None)] \<rparr>"

text \<open>The error the network helper raises for a response with status 409.\<close>

definition server409 :: odsp_error where
  "server409 = odspNetworkError ''conflict'' 409"

lemma tracker_A_learned:
  "fetchAndParseAsJSON treesLatest (Inr \<lparr>epochHeader = Some ''A'', body = ''tree''\<rparr>)
     (new_EpochTracker\<lparr>fileEntry := Some ''doc'', persistedCache := persistedCache tracker_A\<rparr>) =
     (Inr \<lparr>epochHeader = Some ''A'', body = ''tree''\<rparr>, tracker_A)"
  by (simp add: fetchAndParseAsJSON_def fetchAndParseAsJSON_with_def validateEpochFromResponse_def
      checkForEpochErrorCore_def truthy_def new_EpochTracker_def tracker_A_def sendEvent_def)

lemma mismatch_is_epoch_error:
  "errorType (odspNetworkError errText fluidEpochMismatchError) = Some epochVersionMismatch"
  by (simp add: odspNetworkError_def)

text \<open>
  Claim C6. An epoch is present when it is a non-empty string: the source tests
  presence by truthiness, so null, undefined and the empty string are absent. With no
  local epoch and a response epoch present, validation adopts the response epoch and
  logs \<open>EpochLearnedFirstTime\<close>. With both present and different, validation raises
  the epoch-mismatch error and changes nothing. With the response epoch absent,
  validation changes nothing and raises nothing. The same holds for a cached entry
  (\<open>fromCache\<close> true).
\<close>

theorem validateEpochFromResponse_cases:
  "(fluidEpoch s = None \<and> truthy (Some e) \<longrightarrow>
      validateEpochFromResponse (Some e) fetchType fromCache s =
        (None, s\<lparr>logged := logged s @ [EpochLearnedFirstTime e fetchType fromCache],
                 fluidEpoch := Some e\<rparr>)) \<and>
   (truthy (fluidEpoch s) \<and> truthy r \<and> fluidEpoch s \<noteq> r \<longrightarrow>
      validateEpochFromResponse r fetchType fromCache s =
        (Some (odspNetworkError ''Epoch Mismatch'' fluidEpochMismatchError), s) \<and>
      errorType (odspNetworkError ''Epoch Mismatch'' fluidEpochMismatchError) =
        Some epochVersionMismatch) \<and>
   (\<not> truthy r \<longrightarrow> validateEpochFromResponse r fetchType fromCache s = (None, s))"
  by (simp add: validateEpochFromResponse_def checkForEpochErrorCore_def truthy_def sendEvent_def
      mismatch_is_epoch_error)

theorem validateEpochFromResponse_cases_witness:
  "validateEpochFromResponse (Some ''A'') treesLatest False new_EpochTracker =
     (None, new_EpochTracker\<lparr>logged := [EpochLearnedFirstTime ''A'' treesLatest False],
                              fluidEpoch := Some ''A''\<rparr>) \<and>
   validateEpochFromResponse (Some ''B'') ops True tracker_A =
     (Some (odspNetworkError ''Epoch Mismatch'' fluidEpochMismatchError), tracker_A) \<and>
   validateEpochFromResponse None ops False tracker_A = (None, tracker_A) \<and>
   validateEpochFromResponse (Some []) ops False tracker_A = (None, tracker_A)"
  using validateEpochFromResponse_cases [of new_EpochTracker "''A''" treesLatest False]
    validateEpochFromResponse_cases [of tracker_A _ ops True "Some ''B''"]
    validateEpochFromResponse_cases [of tracker_A _ ops False None]
    validateEpochFromResponse_cases [of tracker_A _ ops False "Some []"]
  by (simp add: truthy_def new_EpochTracker_def tracker_A_def)

lemma removeEntries_purges:
  "removeEntriesCalls (removeEntries f s) = removeEntriesCalls s @ [f] \<and>
   (\<forall>(e, v) \<in> set (persistedCache (removeEntries f s)). ce_file e \<noteq> f) \<and>
   filter (\<lambda>(e, v). ce_file e \<noteq> f) (persistedCache s) = persistedCache (removeEntries f s)"
  by (auto simp add: removeEntries_def)

text \<open>
  Claim C7, as amended. For a caught error whose \<open>errorType\<close> is
  \<open>epochVersionMismatch\<close>: when the stored epoch and the response epoch are both
  present and differ, the tracker removes the persisted entries of the configured file
  entry and raises the epoch-mismatch error, and when no file entry is set the
  assertion fails and nothing is removed; in every other case, that is when the two
  epochs are equal or one of them is absent, it raises a throttling error built from
  the message, 1000 and 429, and removes nothing. For any other \<open>errorType\<close> the check
  does nothing, and the caller raises the caught error again.
\<close>

theorem checkForEpochError_cases:
  "(errorType error = Some epochVersionMismatch \<and>
    truthy (fluidEpoch s) \<and> truthy r \<and> fluidEpoch s \<noteq> r \<and> fileEntry s = Some f \<longrightarrow>
      fst (checkForEpochError error r fetchType fromCache s) =
        Some (odspNetworkError (case errorMessage error of Some m \<Rightarrow> m | None \<Rightarrow> ''Epoch Mismatch'')
                fluidEpochMismatchError) \<and>
      removeEntriesCalls (snd (checkForEpochError error r fetchType fromCache s)) =
        removeEntriesCalls s @ [f] \<and>
      persistedCache (snd (checkForEpochError error r fetchType fromCache s)) =
        filter (\<lambda>(e, v). ce_file e \<noteq> f) (persistedCache s) \<and>
      fluidEpoch (snd (checkForEpochError error r fetchType fromCache s)) = fluidEpoch s) \<and>
   (errorType error = Some epochVersionMismatch \<and>
    truthy (fluidEpoch s) \<and> truthy r \<and> fluidEpoch s \<noteq> r \<and> fileEntry s = None \<longrightarrow>
      fst (checkForEpochError error r fetchType fromCache s) =
        Some (assertionError ''File Entry should be set to clear the cached entries!!'') \<and>
      removeEntriesCalls (snd (checkForEpochError error r fetchType fromCache s)) =
        removeEntriesCalls s \<and>
      persistedCache (snd (checkForEpochError error r fetchType fromCache s)) = persistedCache s) \<and>
   (errorType error = Some epochVersionMismatch \<and>
    \<not> (truthy (fluidEpoch s) \<and> truthy r \<and> fluidEpoch s \<noteq> r) \<longrightarrow>
      checkForEpochError error r fetchType fromCache s =
        (Some (ThrottlingError (errorMessage error) 1000 429), sendEvent (Coherency409 error) s) \<and>
      removeEntriesCalls (sendEvent (Coherency409 error) s) = removeEntriesCalls s \<and>
      persistedCache (sendEvent (Coherency409 error) s) = persistedCache s) \<and>
   (errorType error \<noteq> Some epochVersionMismatch \<longrightarrow>
      checkForEpochError error r fetchType fromCache s = (None, s) \<and>
      rethrow error r fetchType fromCache s = (error, s))"
  by (simp add: checkForEpochError_def checkForEpochErrorCore_def rethrow_def sendEvent_def
      removeEntries_def)

definition notFound :: odsp_error where
  "notFound = \<lparr>errorType = Some (otherErrorType ''fileNotFound''), statusCode = Some 404,
                errorMessage = Some ''not found'', retryAfterMs = None\<rparr>"

theorem checkForEpochError_cases_witness:
  "errorType server409 = Some epochVersionMismatch \<and>
   fst (checkForEpochError server409 (Some ''B'') ops False tracker_A) =
     Some (odspNetworkError ''conflict'' fluidEpochMismatchError) \<and>
   removeEntriesCalls (snd (checkForEpochError server409 (Some ''B'') ops False tracker_A)) = [''doc''] \<and>
   persistedCache (snd (checkForEpochError server409 (Some ''B'') ops False tracker_A)) =
     [(\<lparr>ce_file = ''other'', ce_type = ''snapshot'', ce_key = ''k''\<rparr>,
       \<lparr>cv_fluidEpoch = Some ''A'', cv_value = ''w''\<rparr>)] \<and>
   fst (checkForEpochError server409 (Some ''B'') ops False (tracker_A\<lparr>fileEntry := None\<rparr>)) =
     Some (assertionError ''File Entry should be set to clear the cached entries!!'') \<and>
   fst (checkForEpochError server409 (Some ''A'') ops False tracker_A) =
     Some (ThrottlingError (Some ''conflict'') 1000 429) \<and>
   removeEntriesCalls (snd (checkForEpochError server409 (Some ''A'') ops False tracker_A)) = [] \<and>
   retryAfterMs (ThrottlingError (Some ''conflict'') 1000 429) = Some 1000 \<and>
   statusCode (ThrottlingError (Some ''conflict'') 1000 429) = Some 429 \<and>
   checkForEpochError notFound (Some ''B'') ops False tracker_A = (None, tracker_A)"
  using checkForEpochError_cases [of server409 tracker_A "Some ''B''" "''doc''" ops False]
    checkForEpochError_cases [of server409 "tracker_A\<lparr>fileEntry := None\<rparr>" "Some ''B''" _ ops False]
    checkForEpochError_cases [of server409 tracker_A "Some ''A''" _ ops False]
    checkForEpochError_cases [of notFound tracker_A "Some ''B''" _ ops False]
  by (simp add: server409_def odspNetworkError_def fluidEpochMismatchError_def truthy_def
      tracker_A_def notFound_def ThrottlingError_def sendEvent_def)

text \<open>
  The claim as stated has the tracker purge the cache whenever the two epochs do not
  agree. The server answers a request of a tracker that knows epoch \<open>A\<close> with the
  epoch-mismatch status: the helper raises before any header is read, so the response
  epoch is undefined and does not agree with \<open>A\<close>; the tracker raises the throttling
  error and removes nothing.
\<close>

theorem checkForEpochError_absent_epoch_counterexample:
  "errorType server409 = Some epochVersionMismatch \<and>
   fluidEpoch tracker_A = Some ''A'' \<and>
   fluidEpoch tracker_A \<noteq> None \<and>
   fst (fetchAndParseAsJSON ops (Inl server409) tracker_A) =
     Inl (ThrottlingError (Some ''conflict'') 1000 429) \<and>
   removeEntriesCalls (snd (fetchAndParseAsJSON ops (Inl server409) tracker_A)) = [] \<and>
   persistedCache (snd (fetchAndParseAsJSON ops (Inl server409) tracker_A)) = persistedCache tracker_A \<and>
   fst (checkForEpochError server409 None ops False tracker_A) =
     Some (ThrottlingError (Some ''conflict'') 1000 429) \<and>
   removeEntriesCalls (snd (checkForEpochError server409 None ops False tracker_A)) = []"
  by (simp add: fetchAndParseAsJSON_def fetchAndParseAsJSON_with_def rethrow_def
      checkForEpochError_def checkForEpochErrorCore_def truthy_def server409_def
      odspNetworkError_def fluidEpochMismatchError_def tracker_A_def sendEvent_def)

section \<open>Claim C8: the redemption variant\<close>

lemma checkForEpochError_keeps:
  "requests (snd (checkForEpochError error r fetchType fromCache s)) = requests s"
  "treesLatestDeferral (snd (checkForEpochError error r fetchType fromCache s)) = treesLatestDeferral s"
  by (simp_all add: checkForEpochError_def sendEvent_def removeEntries_def Let_def
      split: option.split)

lemma rethrow_keeps:
  "requests (snd (rethrow error r fetchType fromCache s)) = requests s"
  "treesLatestDeferral (snd (rethrow error r fetchType fromCache s)) = treesLatestDeferral s"
proof -
  obtain e s' where c: "checkForEpochError error r fetchType fromCache s = (e, s')"
    by (cases "checkForEpochError error r fetchType fromCache s")
  with checkForEpochError_keeps [of error r fetchType fromCache s]
  show "requests (snd (rethrow error r fetchType fromCache s)) = requests s"
    "treesLatestDeferral (snd (rethrow error r fetchType fromCache s)) = treesLatestDeferral s"
    by (simp_all add: rethrow_def split: option.split)
qed

lemma validate_redemption_keeps:
  "requests (snd (validateEpochFromResponse_redemption r fetchType fromCache s)) = requests s"
  "fst (validateEpochFromResponse_redemption r fetchType fromCache s) \<noteq> None \<Longrightarrow>
     snd (validateEpochFromResponse_redemption r fetchType fromCache s) = s"
  by (auto simp add: validateEpochFromResponse_redemption_def validateEpochFromResponse_def
      sendEvent_def Let_def split: option.splits if_splits)


lemma super_fetch_failure_keeps_latch:
  assumes "super_fetchAndParseAsJSON fetchType net s = (Inl error, s1)"
  shows "treesLatestDeferral s1 = treesLatestDeferral s"
proof (cases net)
  case (Inl e)
  let ?s1 = "s\<lparr>requests := requests s @ [(fetchType, fluidEpoch s)]\<rparr>"
  from rethrow_keeps(2) [of e None fetchType False ?s1] Inl assms show ?thesis
    by (simp add: super_fetchAndParseAsJSON_def fetchAndParseAsJSON_with_def split_def Let_def)
next
  case (Inr resp)
  let ?s1 = "s\<lparr>requests := requests s @ [(fetchType, fluidEpoch s)]\<rparr>"
  obtain v s2 where v: "validateEpochFromResponse_redemption (epochHeader resp) fetchType False ?s1 = (v, s2)"
    by (cases "validateEpochFromResponse_redemption (epochHeader resp) fetchType False ?s1")
  show ?thesis
  proof (cases v)
    case None
    with Inr v assms show ?thesis
      by (simp add: super_fetchAndParseAsJSON_def fetchAndParseAsJSON_with_def Let_def)
  next
    case (Some e)
    with v validate_redemption_keeps(2) [of "epochHeader resp" fetchType False ?s1]
    have "s2 = ?s1"
      by simp
    with Some Inr v assms rethrow_keeps(2) [of e "epochHeader resp" fetchType False s2]
    show ?thesis
      by (simp add: super_fetchAndParseAsJSON_def fetchAndParseAsJSON_with_def split_def Let_def)
  qed
qed


text \<open>When the awaited latch is rejected the call raises the latch's error without a
  second request, and when nobody completes the latch the call never returns.\<close>

lemma redemption_latch_rejected_or_never:
  assumes "super_fetchAndParseAsJSON joinSession net1 s = (Inl error, s1)"
    and "statusCode error = Some 404" and "\<not> isCompleted (treesLatestDeferral s)"
  shows "fetchAndParseAsJSON_redemption joinSession net1 (Some (RejectWith e)) net2 s =
      Some (Inl e, s1\<lparr>treesLatestDeferral := LatchRejected e\<rparr>)"
    and "fetchAndParseAsJSON_redemption joinSession net1 None net2 s = None"
  using assms super_fetch_failure_keeps_latch [OF assms(1)]
  by (simp_all add: fetchAndParseAsJSON_redemption_def Let_def isCompleted_def)





end
